theory Spec2Isabelle
  imports Complex_Main
begin

section \<open>JavaScript numbers\<close>

text \<open>
  Every number of \<^verbatim>\<open>script.js\<close> is an IEEE 754 binary64 value. A finite double is a
  rational, so the model keeps it as its exact value: \<open>Fin r\<close> is the double whose value is
  \<open>r\<close>. The two zeros are identified (the script never divides by a value that can be
  zero, the only place where their sign shows). \<open>NaN\<close> and the infinities are values of
  their own.
\<close>

datatype jsnum = NaN | NegInf | PosInf | Fin rat

text \<open>The number of binary digits of a natural number.\<close>

fun bit_length :: "nat \<Rightarrow> nat" where
  "bit_length n = (if n = 0 then 0 else Suc (bit_length (n div 2)))"

declare bit_length.simps [simp del]

definition pow2 :: "int \<Rightarrow> rat" where
  "pow2 k = (if 0 \<le> k then 2 ^ nat k else 1 / 2 ^ nat (- k))"

text \<open>The binary exponent of a positive rational: \<open>pow2 (ilog2 a) \<le> a < pow2 (ilog2 a + 1)\<close>.\<close>

definition ilog2 :: "rat \<Rightarrow> int" where
  "ilog2 a = (if 1 \<le> a then int (bit_length (nat \<lfloor>a\<rfloor>)) - 1
              else - int (bit_length (nat (- \<lfloor>- (1 / a)\<rfloor> - 1))))"

text \<open>Rounding to the nearest integer, a tie going to the even neighbour.\<close>

definition round_half_even :: "rat \<Rightarrow> int" where
  "round_half_even m =
     (if frac m < 1 / 2 then \<lfloor>m\<rfloor>
      else if 1 / 2 < frac m then \<lfloor>m\<rfloor> + 1
      else if even \<lfloor>m\<rfloor> then \<lfloor>m\<rfloor> else \<lfloor>m\<rfloor> + 1)"

text \<open>
  Rounding of a positive rational to 53 significant bits. In the binade of exponent \<open>e\<close>
  the doubles are the multiples of \<open>pow2 (e - 52)\<close>; below the smallest normal exponent
  \<open>- 1022\<close> the spacing stays that of the subnormal numbers.
\<close>

definition round_at :: "int \<Rightarrow> rat \<Rightarrow> rat" where
  "round_at e a = of_int (round_half_even (a / pow2 (e - 52))) * pow2 (e - 52)"

text \<open>
  \<open>round_double x\<close> is the double an exact result \<open>x\<close> is stored as: round to nearest,
  ties to even, with the exponent held at \<open>- 1022\<close> for the subnormal range, and an
  infinity once the rounded magnitude reaches \<open>pow2 1024\<close> (which needs an exponent of at
  least 1023).
\<close>

definition overflows :: "int \<Rightarrow> rat \<Rightarrow> bool" where
  "overflows e y = (if e < 1023 then False else pow2 1024 \<le> y)"

definition pack_double :: "bool \<Rightarrow> int \<Rightarrow> rat \<Rightarrow> jsnum" where
  "pack_double neg e y =
     (if overflows e y then (if neg then NegInf else PosInf) else Fin (if neg then - y else y))"

definition round_mag :: "bool \<Rightarrow> int \<Rightarrow> rat \<Rightarrow> jsnum" where
  "round_mag neg e a = pack_double neg e (round_at (max e (- 1022)) a)"

definition round_double :: "rat \<Rightarrow> jsnum" where
  "round_double x = (if x = 0 then Fin 0 else round_mag (x < 0) (ilog2 \<bar>x\<bar>) \<bar>x\<bar>)"

text \<open>A decimal literal of the source denotes the double nearest to its decimal value.\<close>

definition lit :: "rat \<Rightarrow> jsnum" where
  "lit d = round_double d"

fun sign_of :: "jsnum \<Rightarrow> int" where
  "sign_of NaN = 0"
| "sign_of NegInf = - 1"
| "sign_of PosInf = 1"
| "sign_of (Fin a) = (if a < 0 then - 1 else if a = 0 then 0 else 1)"

definition inf_of_sign :: "int \<Rightarrow> jsnum" where
  "inf_of_sign s = (if s = 0 then NaN else if 0 < s then PosInf else NegInf)"

fun fneg :: "jsnum \<Rightarrow> jsnum" where
  "fneg NaN = NaN"
| "fneg NegInf = PosInf"
| "fneg PosInf = NegInf"
| "fneg (Fin a) = Fin (- a)"

text \<open>The operator \<^verbatim>\<open>*\<close>.\<close>

fun fmul :: "jsnum \<Rightarrow> jsnum \<Rightarrow> jsnum" where
  "fmul NaN y = NaN"
| "fmul x NaN = NaN"
| "fmul (Fin a) (Fin b) = round_double (a * b)"
| "fmul x y = inf_of_sign (sign_of x * sign_of y)"

text \<open>The operators \<^verbatim>\<open>+\<close> and \<^verbatim>\<open>-\<close> on numbers.\<close>

fun fadd :: "jsnum \<Rightarrow> jsnum \<Rightarrow> jsnum" where
  "fadd NaN y = NaN"
| "fadd x NaN = NaN"
| "fadd (Fin a) (Fin b) = round_double (a + b)"
| "fadd PosInf NegInf = NaN"
| "fadd NegInf PosInf = NaN"
| "fadd (Fin a) y = y"
| "fadd x y = x"

definition fsub :: "jsnum \<Rightarrow> jsnum \<Rightarrow> jsnum" where
  "fsub x y = fadd x (fneg y)"

text \<open>The operator \<^verbatim>\<open>/\<close>; the model's only zero is read as \<open>+0\<close>.\<close>

fun fdiv :: "jsnum \<Rightarrow> jsnum \<Rightarrow> jsnum" where
  "fdiv NaN y = NaN"
| "fdiv x NaN = NaN"
| "fdiv (Fin a) (Fin b) = (if b = 0 then inf_of_sign (sign_of (Fin a)) else round_double (a / b))"
| "fdiv (Fin a) y = Fin 0"
| "fdiv x (Fin b) = inf_of_sign (sign_of x * (if b < 0 then - 1 else 1))"
| "fdiv x y = NaN"

text \<open>The comparison \<^verbatim>\<open><\<close>: false as soon as an operand is \<open>NaN\<close>.\<close>

fun flt :: "jsnum \<Rightarrow> jsnum \<Rightarrow> bool" where
  "flt NaN y = False"
| "flt x NaN = False"
| "flt (Fin a) (Fin b) = (a < b)"
| "flt x NegInf = False"
| "flt PosInf y = False"
| "flt x y = True"

text \<open>\<^verbatim>\<open>Math.min\<close>, \<^verbatim>\<open>Math.max\<close> (of two arguments) and \<^verbatim>\<open>Math.round\<close>.\<close>

fun Math_min :: "jsnum \<Rightarrow> jsnum \<Rightarrow> jsnum" where
  "Math_min NaN y = NaN"
| "Math_min x NaN = NaN"
| "Math_min x y = (if flt y x then y else x)"

fun Math_max :: "jsnum \<Rightarrow> jsnum \<Rightarrow> jsnum" where
  "Math_max NaN y = NaN"
| "Math_max x NaN = NaN"
| "Math_max x y = (if flt x y then y else x)"

fun Math_round :: "jsnum \<Rightarrow> jsnum" where
  "Math_round (Fin a) = Fin (of_int \<lfloor>a + 1 / 2\<rfloor>)"
| "Math_round x = x"

text \<open>\<open>in_range lo hi x\<close>: \<open>x\<close> is a finite number of the closed interval.\<close>

fun in_range :: "rat \<Rightarrow> rat \<Rightarrow> jsnum \<Rightarrow> bool" where
  "in_range lo hi (Fin r) = (lo \<le> r \<and> r \<le> hi)"
| "in_range lo hi x = False"

text \<open>\<open>nonneg_num x\<close>: \<open>x\<close> is a number that is not negative, \<open>+\<infinity>\<close> included.\<close>

fun nonneg_num :: "jsnum \<Rightarrow> bool" where
  "nonneg_num (Fin r) = (0 \<le> r)"
| "nonneg_num PosInf = True"
| "nonneg_num x = False"

section \<open>Property reads\<close>

text \<open>
  An answer is a string or \<^verbatim>\<open>null\<close> (\<open>None\<close>). An object literal of the script is an
  association list. Reading \<^verbatim>\<open>table[key]\<close> turns the key into a string (\<^verbatim>\<open>null\<close>
  becomes the string \<^verbatim>\<open>null\<close>, as it does inside a template literal) and yields
  \<^verbatim>\<open>undefined\<close> (\<open>None\<close>) when the table has no such entry. Used as a factor,
  \<^verbatim>\<open>undefined\<close> is \<open>NaN\<close>. (The names every object inherits, such as
  \<^verbatim>\<open>constructor\<close>, read as functions or objects; as a factor these are \<open>NaN\<close> as well, so
  for the arithmetic they behave like a missing entry.)
\<close>

definition js_string :: "string option \<Rightarrow> string" where
  "js_string v = (case v of None \<Rightarrow> ''null'' | Some s \<Rightarrow> s)"

definition get_prop :: "(string \<times> 'a) list \<Rightarrow> string option \<Rightarrow> 'a option" where
  "get_prop table k = map_of table (js_string k)"

definition to_number :: "jsnum option \<Rightarrow> jsnum" where
  "to_number v = (case v of None \<Rightarrow> NaN | Some n \<Rightarrow> n)"

section \<open>State and configuration\<close>

record form_data =
  firmSize :: "string option"
  bilingualExposure :: "string option"
  region :: "string option"
  hiringPressure :: "string option"

text \<open>The four tables of \<^verbatim>\<open>riskConfig\<close>.\<close>

definition firmSizeRisk :: "(string \<times> jsnum) list" where
  "firmSizeRisk = [(''small'', lit (8 / 10)), (''medium'', lit 1), (''large'', lit (12 / 10))]"

definition bilingualRisk :: "(string \<times> jsnum) list" where
  "bilingualRisk = [(''low'', lit (7 / 10)), (''medium'', lit 1), (''high'', lit (14 / 10))]"

definition regionalPressure :: "(string \<times> jsnum) list" where
  "regionalPressure =
     [(''brussels'', lit (13 / 10)), (''antwerp'', lit (12 / 10)),
      (''liege'', lit (9 / 10)), (''other'', lit 1)]"

definition hiringPressureRisk :: "(string \<times> jsnum) list" where
  "hiringPressureRisk =
     [(''stable'', lit (8 / 10)), (''moderate'', lit 1), (''aggressive'', lit (13 / 10))]"

section \<open>The risk calculation\<close>

record risk_indicators =
  bilingualPressure :: jsnum
  scarcityExposure :: jsnum
  aiLeverage :: jsnum
  eorFeasibility :: jsnum

record risk_data =
  riskScore :: jsnum
  riskLevel :: string
  riskClass :: string
  riskDescription :: string
  indicators :: risk_indicators

text \<open>
  \<^verbatim>\<open>calculateRisk\<close>. The local \<^verbatim>\<open>riskScore\<close> is assigned six times; \<open>riskScore0\<close> to
  \<open>riskScore5\<close> are its successive values. No statement of the function throws: a read of
  a missing entry is \<^verbatim>\<open>undefined\<close> and arithmetic on it is \<open>NaN\<close>, so the function
  returns an object for every content of \<^verbatim>\<open>state.formData\<close>.
\<close>

definition calculateRisk :: "form_data \<Rightarrow> risk_data" where
  "calculateRisk fd =
     (let riskScore0 = lit 50;
          riskScore1 = fmul riskScore0 (to_number (get_prop firmSizeRisk (firmSize fd)));
          riskScore2 = fmul riskScore1 (to_number (get_prop bilingualRisk (bilingualExposure fd)));
          riskScore3 = fmul riskScore2 (to_number (get_prop regionalPressure (region fd)));
          riskScore4 = fmul riskScore3 (to_number (get_prop hiringPressureRisk (hiringPressure fd)));
          riskScore5 = Math_min (lit 100) (Math_max (lit 0) riskScore4);
          (riskLevel', riskClass', riskDescription') =
            (if flt riskScore5 (lit 40) then
               (''Low'', ''low'',
                ''Your exposure to bilingual talent attrition is well-managed. Maintain current capability building while monitoring market developments.'')
             else if flt riskScore5 (lit 60) then
               (''Moderate'', ''moderate'',
                ''Identifiable attrition risk on critical profiles. Proactive retention strategy recommended for capability resilience.'')
             else if flt riskScore5 (lit 80) then
               (''Elevated'', ''elevated'',
                ''Significant vulnerability to talent loss. Strategic intervention required to secure bilingual capabilities.'')
             else
               (''Structural Risk'', ''structural'',
                ''Critical exposure to bilingual talent scarcity. Reconfiguration of your talent access model required.''));
          bilingualPressure' =
            Math_min (lit 100)
              (fadd (fmul riskScore5 (lit (11 / 10)))
                 (if region fd = Some ''brussels'' then lit 15 else lit 0));
          scarcityExposure' = Math_min (lit 100) (fmul riskScore5 (lit (12 / 10)));
          aiLeverage' =
            Math_min (lit 100)
              (fadd (fsub (lit 100) (fmul riskScore5 (lit (3 / 10))))
                 (if firmSize fd = Some ''large'' then lit 20 else lit 0));
          eorFeasibility' =
            Math_min (lit 100)
              (fadd (if bilingualExposure fd = Some ''high'' then lit 85 else lit 60)
                 (if hiringPressure fd = Some ''aggressive'' then lit 15 else lit 0))
      in \<lparr>riskScore = riskScore5,
          riskLevel = riskLevel',
          riskClass = riskClass',
          riskDescription = riskDescription',
          indicators =
            \<lparr>bilingualPressure = bilingualPressure',
             scarcityExposure = scarcityExposure',
             aiLeverage = aiLeverage',
             eorFeasibility = eorFeasibility'\<rparr>\<rparr>)"

text \<open>
  The parts of that body, named so that the theorems can speak of them: the score before
  and after \<^verbatim>\<open>Math.min(100, Math.max(0, riskScore))\<close>, the ladder as a function of the
  score, and the four sub-indicators as a function of the answers and the score. The lemma
  \<open>calculateRisk_parts\<close> below shows that \<open>calculateRisk\<close> is composed of them.
\<close>

definition rawScore :: "form_data \<Rightarrow> jsnum" where
  "rawScore fd =
     fmul (fmul (fmul (fmul (lit 50)
       (to_number (get_prop firmSizeRisk (firmSize fd))))
       (to_number (get_prop bilingualRisk (bilingualExposure fd))))
       (to_number (get_prop regionalPressure (region fd))))
       (to_number (get_prop hiringPressureRisk (hiringPressure fd)))"

definition normalizedScore :: "form_data \<Rightarrow> jsnum" where
  "normalizedScore fd = Math_min (lit 100) (Math_max (lit 0) (rawScore fd))"

definition riskTier :: "jsnum \<Rightarrow> string \<times> string \<times> string" where
  "riskTier score =
     (if flt score (lit 40) then
        (''Low'', ''low'',
         ''Your exposure to bilingual talent attrition is well-managed. Maintain current capability building while monitoring market developments.'')
      else if flt score (lit 60) then
        (''Moderate'', ''moderate'',
         ''Identifiable attrition risk on critical profiles. Proactive retention strategy recommended for capability resilience.'')
      else if flt score (lit 80) then
        (''Elevated'', ''elevated'',
         ''Significant vulnerability to talent loss. Strategic intervention required to secure bilingual capabilities.'')
      else
        (''Structural Risk'', ''structural'',
         ''Critical exposure to bilingual talent scarcity. Reconfiguration of your talent access model required.''))"

definition riskIndicators :: "form_data \<Rightarrow> jsnum \<Rightarrow> risk_indicators" where
  "riskIndicators fd score =
     \<lparr>bilingualPressure =
        Math_min (lit 100)
          (fadd (fmul score (lit (11 / 10)))
             (if region fd = Some ''brussels'' then lit 15 else lit 0)),
      scarcityExposure = Math_min (lit 100) (fmul score (lit (12 / 10))),
      aiLeverage =
        Math_min (lit 100)
          (fadd (fsub (lit 100) (fmul score (lit (3 / 10))))
             (if firmSize fd = Some ''large'' then lit 20 else lit 0)),
      eorFeasibility =
        Math_min (lit 100)
          (fadd (if bilingualExposure fd = Some ''high'' then lit 85 else lit 60)
             (if hiringPressure fd = Some ''aggressive'' then lit 15 else lit 0))\<rparr>"

definition riskResult :: "form_data \<Rightarrow> jsnum \<Rightarrow> risk_data" where
  "riskResult fd score =
     \<lparr>riskScore = score,
      riskLevel = fst (riskTier score),
      riskClass = fst (snd (riskTier score)),
      riskDescription = snd (snd (riskTier score)),
      indicators = riskIndicators fd score\<rparr>"

section \<open>Rendering of an indicator\<close>

text \<open>
  \<^verbatim>\<open>updateIndicator(name, value)\<close> writes three things to the bar named \<open>name\<close>: its width
  \<^verbatim>\<open>value%\<close>, its text \<^verbatim>\<open>Math.round(value)%\<close> and its class list, \<^verbatim>\<open>indicator-fill\<close> plus
  the colour band. The model returns what is written; the numbers are kept as numbers (their
  decimal printing is not modelled).
\<close>

record indicator_bar =
  barWidth :: jsnum
  valueText :: jsnum
  barClass :: "string list"

definition updateIndicator :: "jsnum \<Rightarrow> indicator_bar" where
  "updateIndicator v =
     \<lparr>barWidth = v,
      valueText = Math_round v,
      barClass =
        [''indicator-fill'',
         if flt v (lit 40) then ''low'' else if flt v (lit 70) then ''moderate'' else ''high'']\<rparr>"

section \<open>Labels and the interpretation text\<close>

text \<open>
  Strings are lists of bytes here. The two characters of the labels outside ASCII are
  kept as their UTF-8 bytes: the en dash of the firm size labels and the e with grave
  accent of \<^verbatim>\<open>liege\<close>'s label.
\<close>

definition en_dash :: string where
  "en_dash = [CHR 0xE2, CHR 0x80, CHR 0x93]"

definition e_grave :: string where
  "e_grave = [CHR 0xC3, CHR 0xA8]"

text \<open>
  \<^verbatim>\<open>labels[key] || key\<close>: the entry when there is one (and it is not the empty string),
  the key itself otherwise. The model differs from the script at the keys that name a
  property every object inherits (\<^verbatim>\<open>constructor\<close>, \<^verbatim>\<open>toString\<close>, \<^verbatim>\<open>__proto__\<close> and the like):
  there the script finds the inherited function or object and shows its text, the model
  returns the key. None of the twelve keys of the tables is such a name, and no theorem
  below reads a label at one.
\<close>

definition label_or_key :: "(string \<times> string) list \<Rightarrow> string option \<Rightarrow> string option" where
  "label_or_key labels k =
     (case get_prop labels k of
        None \<Rightarrow> k
      | Some l \<Rightarrow> if l = [] then k else Some l)"

definition getFirmSizeLabel :: "string option \<Rightarrow> string option" where
  "getFirmSizeLabel size' =
     label_or_key
       [(''small'', ''50'' @ en_dash @ ''100 professionals''),
        (''medium'', ''100'' @ en_dash @ ''150 professionals''),
        (''large'', ''150'' @ en_dash @ ''250 professionals'')] size'"

definition getBilingualLabel :: "string option \<Rightarrow> string option" where
  "getBilingualLabel exposure =
     label_or_key
       [(''low'', ''less than 25%''), (''medium'', ''25% to 50%''), (''high'', ''more than 50%'')]
       exposure"

definition getRegionLabel :: "string option \<Rightarrow> string option" where
  "getRegionLabel region' =
     label_or_key
       [(''brussels'', ''Brussels''), (''antwerp'', ''Antwerp/Flanders''),
        (''liege'', ''Li'' @ e_grave @ ''ge/Wallonia''), (''other'', ''other Belgian regions'')]
       region'"

text \<open>
  \<^verbatim>\<open>toLowerCase\<close>, on the letters A to Z (every \<^verbatim>\<open>riskLevel\<close> the ladder can produce is
  ASCII).
\<close>

definition lower_char :: "char \<Rightarrow> char" where
  "lower_char c =
     (case map_of (zip ''ABCDEFGHIJKLMNOPQRSTUVWXYZ'' ''abcdefghijklmnopqrstuvwxyz'') c of
        None \<Rightarrow> c
      | Some l \<Rightarrow> l)"

definition toLowerCase :: "string \<Rightarrow> string" where
  "toLowerCase s = map lower_char s"

text \<open>\<^verbatim>\<open>generateInterpretation(riskData)\<close>, with the form data it reads from the state.\<close>

definition generateInterpretation :: "form_data \<Rightarrow> risk_data \<Rightarrow> string" where
  "generateInterpretation fd riskData =
     (''<p><strong>Capability resilience assessment:</strong> Your organization of ''
        @ js_string (getFirmSizeLabel (firmSize fd)) @ '' '')
     @ (''with '' @ js_string (getBilingualLabel (bilingualExposure fd))
        @ '' bilingual client exposure '')
     @ (''operating in '' @ js_string (getRegionLabel (region fd)) @ '' demonstrates a <strong>''
        @ toLowerCase (riskLevel riskData) @ '' risk profile</strong>. '')
     @ (if riskClass riskData = ''low'' then
          ''This favorable position indicates effective capability retention and competitive positioning. </p>''
          @ ''<p><strong>Strategic recommendations:</strong></p><ul>''
          @ ''<li>Maintain competitive intelligence on compensation trends in your labor market</li>''
          @ ''<li>Develop succession pathways for critical bilingual roles</li>''
          @ ''<li>Evaluate AI augmentation for junior capability optimization</li></ul>''
        else if riskClass riskData = ''moderate'' then
          ''Market signals indicate emerging tension in Belgian bilingual talent markets affecting your region. </p>''
          @ ''<p><strong>Strategic recommendations:</strong></p><ul>''
          @ ''<li>Conduct immediate compensation benchmarking against public market data (LinkedIn, Glassdoor)</li>''
          @ ''<li>Identify flight-risk profiles based on tenure and client exposure</li>''
          @ ''<li>Assess EOR viability for non-critical support functions</li></ul>''
        else if riskClass riskData = ''elevated'' then
          ''The combination of scale, bilingual dependency, and location creates operational capability risk. </p>''
          @ ''<p><strong>Strategic recommendations:</strong></p><ul>''
          @ ''<li>Implement urgent retention plan (compensation adjustment, career pathway clarity)</li>''
          @ ''<li>Activate EOR channels to decompress local hiring pressure</li>''
          @ ''<li>Deploy AI automation on document-intensive workflows</li>''
          @ ''<li>Evaluate internal mobility to preserve bilingual capability</li></ul>''
        else
          ''Your talent access model is under structural pressure. Bilingual capability scarcity threatens service delivery capacity. </p>''
          @ ''<p><strong>Strategic recommendations:</strong></p><ul>''
          @ ''<li>Reconfigure compensation structure immediately (significant bilingual premium)</li>''
          @ ''<li>Implement multicountry EOR model for European talent access</li>''
          @ ''<li>Accelerate AI transformation to reduce headcount dependency</li>''
          @ ''<li>Restructure organization to isolate critical bilingual functions</li></ul>'')
     @ ''<p><strong>Market intelligence:</strong> Public recruitment data indicates ''
     @ ''hiring velocity of +23% for FR-NL bilingual legal profiles in Brussels (LinkedIn, 2024). ''
     @ ''Bilingual premiums reach 20-35% in law and audit firms (public sources). ''
     @ ''Without intervention, selective turnover risk on your bilingual talent increases 15-25% annually.</p>''"

section \<open>The wizard\<close>

text \<open>
  The state object of the script, together with what the script writes to the page and
  the theorems below speak of: the width it gives the progress bar, the \<^verbatim>\<open>disabled\<close> flag
  of the four Next buttons, and the results panel. The other effects on the page (the
  \<^verbatim>\<open>active\<close> class of the steps, the scroll position, the static heatmap) are not part of
  the model, and the page is taken to hold every element the script looks up.
\<close>

record results_view =
  riskValueText :: string
  riskValueClassName :: string
  riskDescriptionText :: string
  bilingualPressureBar :: indicator_bar
  scarcityBar :: indicator_bar
  aiLeverageBar :: indicator_bar
  eorFeasibilityBar :: indicator_bar
  interpretationContent :: string

record wizard =
  currentStep :: jsnum
  totalSteps :: jsnum
  formData :: form_data
  progressWidth :: jsnum
  nextBtnDisabled :: "nat \<Rightarrow> bool"
  results :: "results_view option"

definition updateProgress :: "wizard \<Rightarrow> wizard" where
  "updateProgress w = w\<lparr>progressWidth := fmul (fdiv (currentStep w) (totalSteps w)) (lit 100)\<rparr>"

definition nextStep :: "wizard \<Rightarrow> wizard" where
  "nextStep w =
     (if flt (currentStep w) (totalSteps w)
      then updateProgress (w\<lparr>currentStep := fadd (currentStep w) (lit 1)\<rparr>)
      else w)"

definition prevStep :: "wizard \<Rightarrow> wizard" where
  "prevStep w =
     (if flt (lit 1) (currentStep w)
      then updateProgress (w\<lparr>currentStep := fsub (currentStep w) (lit 1)\<rparr>)
      else w)"

definition calculateAndShowResults :: "wizard \<Rightarrow> wizard" where
  "calculateAndShowResults w =
     w\<lparr>results := Some
        \<lparr>riskValueText = riskLevel (calculateRisk (formData w)),
         riskValueClassName = ''risk-value '' @ riskClass (calculateRisk (formData w)),
         riskDescriptionText = riskDescription (calculateRisk (formData w)),
         bilingualPressureBar =
           updateIndicator (bilingualPressure (indicators (calculateRisk (formData w)))),
         scarcityBar = updateIndicator (scarcityExposure (indicators (calculateRisk (formData w)))),
         aiLeverageBar = updateIndicator (aiLeverage (indicators (calculateRisk (formData w)))),
         eorFeasibilityBar =
           updateIndicator (eorFeasibility (indicators (calculateRisk (formData w)))),
         interpretationContent =
           generateInterpretation (formData w) (calculateRisk (formData w))\<rparr>\<rparr>"

text \<open>
  The state before \<^verbatim>\<open>init\<close>: step 1 of 5, no answer. What the page shows then (the width
  of the progress bar, which Next buttons are disabled) is set by its markup, so both are
  parameters. \<^verbatim>\<open>init\<close> binds the handlers and calls \<^verbatim>\<open>updateProgress\<close>.
\<close>

definition initial_state :: "jsnum \<Rightarrow> (nat \<Rightarrow> bool) \<Rightarrow> wizard" where
  "initial_state width0 disabled0 =
     \<lparr>currentStep = lit 1,
      totalSteps = lit 5,
      formData = \<lparr>firmSize = None, bilingualExposure = None, region = None, hiringPressure = None\<rparr>,
      progressWidth = width0,
      nextBtnDisabled = disabled0,
      results = None\<rparr>"

definition init :: "jsnum \<Rightarrow> (nat \<Rightarrow> bool) \<Rightarrow> wizard" where
  "init width0 disabled0 = updateProgress (initial_state width0 disabled0)"

text \<open>
  The handlers of \<^verbatim>\<open>bindEvents\<close>. A change of a radio group stores its value and enables
  the Next button of its step. A click on a disabled button runs no handler. The Next
  button of step 4 computes and shows the results before it advances.
\<close>

datatype event =
  ChangeFirmSize string
  | ChangeBilingualExposure string
  | ChangeRegion string
  | ChangeHiringPressure string
  | ClickNext nat
  | ClickPrev nat

fun handle :: "event \<Rightarrow> wizard \<Rightarrow> wizard" where
  "handle (ChangeFirmSize v) w =
     w\<lparr>formData := (formData w)\<lparr>firmSize := Some v\<rparr>,
       nextBtnDisabled := (nextBtnDisabled w)(1 := False)\<rparr>"
| "handle (ChangeBilingualExposure v) w =
     w\<lparr>formData := (formData w)\<lparr>bilingualExposure := Some v\<rparr>,
       nextBtnDisabled := (nextBtnDisabled w)(2 := False)\<rparr>"
| "handle (ChangeRegion v) w =
     w\<lparr>formData := (formData w)\<lparr>region := Some v\<rparr>,
       nextBtnDisabled := (nextBtnDisabled w)(3 := False)\<rparr>"
| "handle (ChangeHiringPressure v) w =
     w\<lparr>formData := (formData w)\<lparr>hiringPressure := Some v\<rparr>,
       nextBtnDisabled := (nextBtnDisabled w)(4 := False)\<rparr>"
| "handle (ClickNext k) w =
     (if nextBtnDisabled w k then w
      else if k = 1 \<or> k = 2 \<or> k = 3 then nextStep w
      else if k = 4 then nextStep (calculateAndShowResults w)
      else w)"
| "handle (ClickPrev k) w = (if k = 2 \<or> k = 3 \<or> k = 4 then prevStep w else w)"

definition run :: "event list \<Rightarrow> wizard \<Rightarrow> wizard" where
  "run es w = foldl (\<lambda>w' e. handle e w') w es"

text \<open>
  The gate of the wizard: the Next button of a step is disabled exactly as long as the
  answer of the step is unset.
\<close>

definition button_gate :: "wizard \<Rightarrow> bool" where
  "button_gate w =
     (nextBtnDisabled w 1 = (firmSize (formData w) = None)
      \<and> nextBtnDisabled w 2 = (bilingualExposure (formData w) = None)
      \<and> nextBtnDisabled w 3 = (region (formData w) = None)
      \<and> nextBtnDisabled w 4 = (hiringPressure (formData w) = None))"

text \<open>
  The answer a step asks for: \<^verbatim>\<open>bindEvents\<close> pairs the radio group \<^verbatim>\<open>firmSize\<close> with the
  Next button of step 1, \<^verbatim>\<open>bilingualExposure\<close> with that of step 2, \<^verbatim>\<open>region\<close> with that of
  step 3 and \<^verbatim>\<open>hiringPressure\<close> with that of step 4. Step 5 shows the results and asks for
  nothing.
\<close>

definition step_answer :: "nat \<Rightarrow> form_data \<Rightarrow> string option" where
  "step_answer k fd =
     (if k = 1 then firmSize fd
      else if k = 2 then bilingualExposure fd
      else if k = 3 then region fd
      else if k = 4 then hiringPressure fd
      else None)"

text \<open>
  The invariant of the navigation: five steps, the current one among them, and the
  progress bar showing the current step.
\<close>

definition progress_inv :: "wizard \<Rightarrow> bool" where
  "progress_inv w =
     (totalSteps w = Fin 5
      \<and> currentStep w \<in> {Fin 1, Fin 2, Fin 3, Fin 4, Fin 5}
      \<and> progressWidth w = fmul (fdiv (currentStep w) (totalSteps w)) (lit 100))"

section \<open>The valid answers\<close>

text \<open>
  The keys of the four tables of \<^verbatim>\<open>riskConfig\<close>: 3, 3, 4 and 3 of them, 108 combinations.
  \<open>answers\<close> is the form data that holds one key of each table.
\<close>

datatype firm_size = SmallFirm | MediumFirm | LargeFirm

datatype exposure = LowShare | MediumShare | HighShare

datatype region_name = Brussels | Antwerp | Liege | OtherRegion

datatype pressure = StablePressure | ModeratePressure | AggressivePressure

fun firm_size_key :: "firm_size \<Rightarrow> string" where
  "firm_size_key SmallFirm = ''small''"
| "firm_size_key MediumFirm = ''medium''"
| "firm_size_key LargeFirm = ''large''"

fun exposure_key :: "exposure \<Rightarrow> string" where
  "exposure_key LowShare = ''low''"
| "exposure_key MediumShare = ''medium''"
| "exposure_key HighShare = ''high''"

fun region_key :: "region_name \<Rightarrow> string" where
  "region_key Brussels = ''brussels''"
| "region_key Antwerp = ''antwerp''"
| "region_key Liege = ''liege''"
| "region_key OtherRegion = ''other''"

fun pressure_key :: "pressure \<Rightarrow> string" where
  "pressure_key StablePressure = ''stable''"
| "pressure_key ModeratePressure = ''moderate''"
| "pressure_key AggressivePressure = ''aggressive''"

definition answers :: "firm_size \<Rightarrow> exposure \<Rightarrow> region_name \<Rightarrow> pressure \<Rightarrow> form_data" where
  "answers fs bl rg hp =
     \<lparr>firmSize = Some (firm_size_key fs),
      bilingualExposure = Some (exposure_key bl),
      region = Some (region_key rg),
      hiringPressure = Some (pressure_key hp)\<rparr>"

section \<open>The specification's formulas\<close>

text \<open>
  The definitions of this section follow the words of the specification, not the script;
  the theorems compare the two. Its arithmetic is the arithmetic of doubles, with the
  product taken from left to right as it is written.
\<close>

fun firmSizeCoeff :: "firm_size \<Rightarrow> jsnum" where
  "firmSizeCoeff SmallFirm = lit (8 / 10)"
| "firmSizeCoeff MediumFirm = lit (10 / 10)"
| "firmSizeCoeff LargeFirm = lit (12 / 10)"

fun bilingualCoeff :: "exposure \<Rightarrow> jsnum" where
  "bilingualCoeff LowShare = lit (7 / 10)"
| "bilingualCoeff MediumShare = lit (10 / 10)"
| "bilingualCoeff HighShare = lit (14 / 10)"

fun regionCoeff :: "region_name \<Rightarrow> jsnum" where
  "regionCoeff Brussels = lit (13 / 10)"
| "regionCoeff Antwerp = lit (12 / 10)"
| "regionCoeff Liege = lit (9 / 10)"
| "regionCoeff OtherRegion = lit (10 / 10)"

fun hiringCoeff :: "pressure \<Rightarrow> jsnum" where
  "hiringCoeff StablePressure = lit (8 / 10)"
| "hiringCoeff ModeratePressure = lit (10 / 10)"
| "hiringCoeff AggressivePressure = lit (13 / 10)"

definition spec_raw :: "firm_size \<Rightarrow> exposure \<Rightarrow> region_name \<Rightarrow> pressure \<Rightarrow> jsnum" where
  "spec_raw fs bl rg hp =
     fmul (fmul (fmul (fmul (lit 50) (firmSizeCoeff fs)) (bilingualCoeff bl)) (regionCoeff rg))
       (hiringCoeff hp)"

text \<open>Clamping to the interval from 0 to 100.\<close>

definition clamp_0_100 :: "jsnum \<Rightarrow> jsnum" where
  "clamp_0_100 x = (if flt x (lit 0) then lit 0 else if flt (lit 100) x then lit 100 else x)"

definition spec_score :: "firm_size \<Rightarrow> exposure \<Rightarrow> region_name \<Rightarrow> pressure \<Rightarrow> jsnum" where
  "spec_score fs bl rg hp = clamp_0_100 (spec_raw fs bl rg hp)"

text \<open>
  The same formula in exact arithmetic, on the decimal values of the tables: what the
  formula says when its numbers are read as rationals.
\<close>

fun firmSizeDecimal :: "firm_size \<Rightarrow> rat" where
  "firmSizeDecimal SmallFirm = 8 / 10"
| "firmSizeDecimal MediumFirm = 10 / 10"
| "firmSizeDecimal LargeFirm = 12 / 10"

fun bilingualDecimal :: "exposure \<Rightarrow> rat" where
  "bilingualDecimal LowShare = 7 / 10"
| "bilingualDecimal MediumShare = 10 / 10"
| "bilingualDecimal HighShare = 14 / 10"

fun regionDecimal :: "region_name \<Rightarrow> rat" where
  "regionDecimal Brussels = 13 / 10"
| "regionDecimal Antwerp = 12 / 10"
| "regionDecimal Liege = 9 / 10"
| "regionDecimal OtherRegion = 10 / 10"

fun hiringDecimal :: "pressure \<Rightarrow> rat" where
  "hiringDecimal StablePressure = 8 / 10"
| "hiringDecimal ModeratePressure = 10 / 10"
| "hiringDecimal AggressivePressure = 13 / 10"

definition exact_raw :: "firm_size \<Rightarrow> exposure \<Rightarrow> region_name \<Rightarrow> pressure \<Rightarrow> rat" where
  "exact_raw fs bl rg hp =
     50 * firmSizeDecimal fs * bilingualDecimal bl * regionDecimal rg * hiringDecimal hp"

definition exact_score :: "firm_size \<Rightarrow> exposure \<Rightarrow> region_name \<Rightarrow> pressure \<Rightarrow> rat" where
  "exact_score fs bl rg hp = min 100 (max 0 (exact_raw fs bl rg hp))"

datatype tier = Low | Moderate | Elevated | Structural

definition spec_tier :: "rat \<Rightarrow> tier" where
  "spec_tier s =
     (if s < 40 then Low
      else if 40 \<le> s \<and> s < 60 then Moderate
      else if 60 \<le> s \<and> s < 80 then Elevated
      else Structural)"

text \<open>What the script shows for a tier: its label, its class and its description.\<close>

fun tier_level :: "tier \<Rightarrow> string" where
  "tier_level Low = ''Low''"
| "tier_level Moderate = ''Moderate''"
| "tier_level Elevated = ''Elevated''"
| "tier_level Structural = ''Structural Risk''"

fun tier_class :: "tier \<Rightarrow> string" where
  "tier_class Low = ''low''"
| "tier_class Moderate = ''moderate''"
| "tier_class Elevated = ''elevated''"
| "tier_class Structural = ''structural''"

fun tier_description :: "tier \<Rightarrow> string" where
  "tier_description Low =
     ''Your exposure to bilingual talent attrition is well-managed. Maintain current capability building while monitoring market developments.''"
| "tier_description Moderate =
     ''Identifiable attrition risk on critical profiles. Proactive retention strategy recommended for capability resilience.''"
| "tier_description Elevated =
     ''Significant vulnerability to talent loss. Strategic intervention required to secure bilingual capabilities.''"
| "tier_description Structural =
     ''Critical exposure to bilingual talent scarcity. Reconfiguration of your talent access model required.''"

text \<open>The four sub-indicators as the specification writes them.\<close>

definition spec_bilingualPressure :: "jsnum \<Rightarrow> region_name \<Rightarrow> jsnum" where
  "spec_bilingualPressure score rg =
     clamp_0_100 (fadd (fmul score (lit (11 / 10))) (if rg = Brussels then lit 15 else lit 0))"

definition spec_scarcityExposure :: "jsnum \<Rightarrow> jsnum" where
  "spec_scarcityExposure score = clamp_0_100 (fmul score (lit (12 / 10)))"

definition spec_aiLeverage :: "jsnum \<Rightarrow> firm_size \<Rightarrow> jsnum" where
  "spec_aiLeverage score fs =
     clamp_0_100
       (fadd (fsub (lit 100) (fmul score (lit (3 / 10)))) (if fs = LargeFirm then lit 20 else lit 0))"

definition spec_eorFeasibility :: "exposure \<Rightarrow> pressure \<Rightarrow> jsnum" where
  "spec_eorFeasibility bl hp =
     clamp_0_100
       (fadd (if bl = HighShare then lit 85 else lit 60)
          (if hp = AggressivePressure then lit 15 else lit 0))"

text \<open>
  The interpretation as the specification describes it: an opening paragraph with the
  three label phrases, the recommendation list of the tier, the closing paragraph.
\<close>

fun firmSizePhrase :: "firm_size \<Rightarrow> string" where
  "firmSizePhrase SmallFirm = ''50'' @ en_dash @ ''100 professionals''"
| "firmSizePhrase MediumFirm = ''100'' @ en_dash @ ''150 professionals''"
| "firmSizePhrase LargeFirm = ''150'' @ en_dash @ ''250 professionals''"

fun bilingualPhrase :: "exposure \<Rightarrow> string" where
  "bilingualPhrase LowShare = ''less than 25%''"
| "bilingualPhrase MediumShare = ''25% to 50%''"
| "bilingualPhrase HighShare = ''more than 50%''"

fun regionPhrase :: "region_name \<Rightarrow> string" where
  "regionPhrase Brussels = ''Brussels''"
| "regionPhrase Antwerp = ''Antwerp/Flanders''"
| "regionPhrase Liege = ''Li'' @ e_grave @ ''ge/Wallonia''"
| "regionPhrase OtherRegion = ''other Belgian regions''"

fun tier_phrase :: "tier \<Rightarrow> string" where
  "tier_phrase Low = ''low''"
| "tier_phrase Moderate = ''moderate''"
| "tier_phrase Elevated = ''elevated''"
| "tier_phrase Structural = ''structural risk''"

fun tier_analysis :: "tier \<Rightarrow> string" where
  "tier_analysis Low =
     ''This favorable position indicates effective capability retention and competitive positioning.''"
| "tier_analysis Moderate =
     ''Market signals indicate emerging tension in Belgian bilingual talent markets affecting your region.''"
| "tier_analysis Elevated =
     ''The combination of scale, bilingual dependency, and location creates operational capability risk.''"
| "tier_analysis Structural =
     ''Your talent access model is under structural pressure. Bilingual capability scarcity threatens service delivery capacity.''"

fun recommendations :: "tier \<Rightarrow> string list" where
  "recommendations Low =
     [''Maintain competitive intelligence on compensation trends in your labor market'',
      ''Develop succession pathways for critical bilingual roles'',
      ''Evaluate AI augmentation for junior capability optimization'']"
| "recommendations Moderate =
     [''Conduct immediate compensation benchmarking against public market data (LinkedIn, Glassdoor)'',
      ''Identify flight-risk profiles based on tenure and client exposure'',
      ''Assess EOR viability for non-critical support functions'']"
| "recommendations Elevated =
     [''Implement urgent retention plan (compensation adjustment, career pathway clarity)'',
      ''Activate EOR channels to decompress local hiring pressure'',
      ''Deploy AI automation on document-intensive workflows'',
      ''Evaluate internal mobility to preserve bilingual capability'']"
| "recommendations Structural =
     [''Reconfigure compensation structure immediately (significant bilingual premium)'',
      ''Implement multicountry EOR model for European talent access'',
      ''Accelerate AI transformation to reduce headcount dependency'',
      ''Restructure organization to isolate critical bilingual functions'']"

definition html_p :: "string \<Rightarrow> string" where
  "html_p body = ''<p>'' @ body @ ''</p>''"

definition html_strong :: "string \<Rightarrow> string" where
  "html_strong body = ''<strong>'' @ body @ ''</strong>''"

definition html_ul :: "string list \<Rightarrow> string" where
  "html_ul items = ''<ul>'' @ concat (map (\<lambda>i. ''<li>'' @ i @ ''</li>'') items) @ ''</ul>''"

definition opening_paragraph :: "firm_size \<Rightarrow> exposure \<Rightarrow> region_name \<Rightarrow> tier \<Rightarrow> string" where
  "opening_paragraph fs bl rg t =
     html_p
       (html_strong ''Capability resilience assessment:''
        @ '' Your organization of '' @ firmSizePhrase fs
        @ '' with '' @ bilingualPhrase bl @ '' bilingual client exposure''
        @ '' operating in '' @ regionPhrase rg
        @ '' demonstrates a '' @ html_strong (tier_phrase t @ '' risk profile'') @ ''. ''
        @ tier_analysis t @ '' '')"

definition recommendation_list :: "tier \<Rightarrow> string" where
  "recommendation_list t =
     html_p (html_strong ''Strategic recommendations:'') @ html_ul (recommendations t)"

definition market_context :: string where
  "market_context =
     html_p
       (html_strong ''Market intelligence:''
        @ '' Public recruitment data indicates hiring velocity of +23% for FR-NL bilingual legal profiles in Brussels (LinkedIn, 2024).''
        @ '' Bilingual premiums reach 20-35% in law and audit firms (public sources).''
        @ '' Without intervention, selective turnover risk on your bilingual talent increases 15-25% annually.'')"

definition spec_interpretation :: "firm_size \<Rightarrow> exposure \<Rightarrow> region_name \<Rightarrow> tier \<Rightarrow> string" where
  "spec_interpretation fs bl rg t =
     opening_paragraph fs bl rg t @ recommendation_list t @ market_context"

section \<open>The parts of the risk calculation\<close>

lemma calculateRisk_parts: "calculateRisk fd = riskResult fd (normalizedScore fd)"
  by (simp add: calculateRisk_def Let_def riskResult_def normalizedScore_def rawScore_def
      riskTier_def riskIndicators_def split_beta)

section \<open>Evaluation of the arithmetic\<close>

lemma floor_rat_div_numeral:
  "\<lfloor>numeral a / numeral b :: rat\<rfloor> = numeral a div numeral b"
  by (metis floor_divide_of_int_eq of_int_numeral)

lemma floor_rat_neg_div_numeral:
  "\<lfloor>- (numeral a / numeral b) :: rat\<rfloor> = - numeral a div numeral b"
  by (metis divide_minus_left floor_divide_of_int_eq of_int_neg_numeral of_int_numeral)

lemma floor_rat_one_div_numeral:
  "\<lfloor>1 / numeral b :: rat\<rfloor> = 1 div numeral b"
  by (metis floor_divide_of_int_eq of_int_1 of_int_numeral)

lemma floor_rat_neg_one_div_numeral:
  "\<lfloor>- (1 / numeral b) :: rat\<rfloor> = - 1 div numeral b"
  by (metis divide_minus_left floor_divide_of_int_eq of_int_1 of_int_minus of_int_numeral)

text \<open>
  The rules that let the simplifier compute \<open>round_double\<close> on a numeral: the definitions,
  and the floor of a quotient of numerals.
\<close>

lemmas rd_eval =
  lit_def round_double_def round_mag_def pack_double_def overflows_def round_at_def ilog2_def
  bit_length.simps pow2_def round_half_even_def frac_def floor_rat_div_numeral
  floor_rat_neg_div_numeral floor_rat_one_div_numeral floor_rat_neg_one_div_numeral

lemma lit_coefficients:
  "lit (7 / 10) = Fin (3152519739159347 / 4503599627370496)"
  "lit (8 / 10) = Fin (3602879701896397 / 4503599627370496)"
  "lit (9 / 10) = Fin (8106479329266893 / 9007199254740992)"
  "lit (12 / 10) = Fin (5404319552844595 / 4503599627370496)"
  "lit (13 / 10) = Fin (5854679515581645 / 4503599627370496)"
  "lit (14 / 10) = Fin (3152519739159347 / 2251799813685248)"
  "lit (11 / 10) = Fin (2476979795053773 / 2251799813685248)"
  "lit (3 / 10) = Fin (5404319552844595 / 18014398509481984)"
  "lit (4 / 5) = Fin (3602879701896397 / 4503599627370496)"
  "lit (6 / 5) = Fin (5404319552844595 / 4503599627370496)"
  "lit (7 / 5) = Fin (3152519739159347 / 2251799813685248)"
  by (simp_all add: rd_eval)

lemma lit_integers:
  "lit 0 = Fin 0" "lit 1 = Fin 1" "lit 2 = Fin 2" "lit 3 = Fin 3" "lit 4 = Fin 4"
  "lit 5 = Fin 5" "lit 15 = Fin 15" "lit 20 = Fin 20"
  "lit 40 = Fin 40" "lit 50 = Fin 50" "lit 60 = Fin 60" "lit 70 = Fin 70" "lit 75 = Fin 75"
  "lit 80 = Fin 80" "lit 85 = Fin 85" "lit 100 = Fin 100"
  by (simp_all add: rd_eval)

lemmas round_double_integers = lit_integers [unfolded lit_def]

section \<open>Properties of rounding\<close>

lemma bit_length_pos: "0 < n \<Longrightarrow> 0 < bit_length n"
  by (subst bit_length.simps) simp

lemma bit_length_bounds:
  "0 < n \<Longrightarrow> 2 ^ (bit_length n - 1) \<le> n \<and> n < 2 ^ bit_length n"
proof (induction n rule: bit_length.induct)
  case (1 n)
  show ?case
  proof (cases "n div 2 = 0")
    case True
    with 1(2) have "n = 1" by (simp add: div_eq_0_iff) 
    then show ?thesis by (simp add: bit_length.simps)
  next
    case False
    then have pos: "0 < n div 2" by simp
    from 1(2) have n0: "n \<noteq> 0" by simp
    have IH: "2 ^ (bit_length (n div 2) - 1) \<le> n div 2 \<and> n div 2 < 2 ^ bit_length (n div 2)"
      using 1(1) [OF n0 pos] .
    have b: "bit_length n = Suc (bit_length (n div 2))"
      using n0 by (subst bit_length.simps) simp
    have bp: "0 < bit_length (n div 2)" using pos by (rule bit_length_pos)
    then obtain c where c: "bit_length (n div 2) = Suc c" by (cases "bit_length (n div 2)") auto
    from IH c have "2 ^ c \<le> n div 2" "n div 2 < 2 ^ Suc c" by simp_all
    then have "2 ^ Suc c \<le> n" "n < 2 ^ Suc (Suc c)" by simp_all
    then show ?thesis by (simp add: b c)
  qed
qed

lemma pow2_powi: "pow2 k = 2 powi k"
  by (simp add: pow2_def power_int_def power_inverse inverse_eq_divide power_one_over)

lemma pow2_pos: "0 < pow2 k"
  by (simp add: pow2_powi)

lemma pow2_add: "pow2 (j + k) = pow2 j * pow2 k"
  by (simp add: pow2_powi power_int_add)

lemma pow2_mono: "j \<le> k \<Longrightarrow> pow2 j \<le> pow2 k"
  by (simp add: pow2_powi power_int_increasing)

lemma pow2_nat: "pow2 (int n) = 2 ^ n"
  by (simp add: pow2_def)

lemma pow2_neg_nat: "pow2 (- int n) = 1 / 2 ^ n"
  by (simp add: pow2_powi power_int_minus_divide)

lemma ilog2_bounds:
  assumes "0 < a"
  shows "pow2 (ilog2 a) \<le> a \<and> a < pow2 (ilog2 a + 1)"
proof (cases "1 \<le> a")
  case True
  define n where "n = nat \<lfloor>a\<rfloor>"
  have fl: "1 \<le> \<lfloor>a\<rfloor>" using True by (simp add: le_floor_iff)
  then have n: "0 < n" and ofn: "of_nat n = (of_int \<lfloor>a\<rfloor> :: rat)"
    by (simp_all add: n_def)
  from bit_length_bounds [OF n] have b: "2 ^ (bit_length n - 1) \<le> n" "n < 2 ^ bit_length n"
    by simp_all
  have bp: "0 < bit_length n" using n by (rule bit_length_pos)
  have e: "ilog2 a = int (bit_length n - 1)"
    using True bp by (simp add: ilog2_def n_def)
  have "(2::rat) ^ (bit_length n - 1) \<le> of_nat n"
    using b(1) by (metis of_nat_le_iff of_nat_numeral of_nat_power)
  also have "\<dots> \<le> a" by (simp add: ofn)
  finally have lo: "pow2 (ilog2 a) \<le> a" by (simp add: e pow2_nat)
  have "a < of_int \<lfloor>a\<rfloor> + 1" by linarith
  also have "\<dots> = of_nat (Suc n)" by (simp add: ofn)
  also have "\<dots> \<le> (2::rat) ^ bit_length n"
    using b(2) by (metis Suc_leI of_nat_le_iff of_nat_numeral of_nat_power)
  finally have "a < 2 ^ bit_length n" .
  moreover have "ilog2 a + 1 = int (bit_length n)" using bp by (simp add: e)
  ultimately have hi: "a < pow2 (ilog2 a + 1)" by (simp add: pow2_nat)
  from lo hi show ?thesis ..
next
  case False
  then have a1: "a < 1" by simp
  define c where "c = \<lceil>1 / a\<rceil>"
  define k where "k = nat (c - 1)"
  have inv: "1 < 1 / a" using assms a1 by simp
  then have c2: "2 \<le> c" unfolding c_def by linarith
  then have k: "0 < k" and ofk: "of_nat k = (of_int c - 1 :: rat)"
    by (simp_all add: k_def)
  have ceil: "- \<lfloor>- (1 / a)\<rfloor> = c" by (simp add: c_def ceiling_def)
  from bit_length_bounds [OF k] have b: "2 ^ (bit_length k - 1) \<le> k" "k < 2 ^ bit_length k"
    by simp_all
  have bp: "0 < bit_length k" using k by (rule bit_length_pos)
  have e: "ilog2 a = - int (bit_length k)"
    using False by (simp add: ilog2_def ceil k_def)
  have "1 / a \<le> of_int c" unfolding c_def by linarith
  also have "\<dots> = of_nat (Suc k)" using ofk by simp
  also have "\<dots> \<le> (2::rat) ^ bit_length k"
    using b(2) by (metis Suc_leI of_nat_le_iff of_nat_numeral of_nat_power)
  finally have "1 / a \<le> 2 ^ bit_length k" .
  then have "1 / 2 ^ bit_length k \<le> a"
    using assms by (simp add: field_simps)
  then have lo: "pow2 (ilog2 a) \<le> a" by (simp add: e pow2_neg_nat)
  have "(2::rat) ^ (bit_length k - 1) \<le> of_nat k"
    using b(1) by (metis of_nat_le_iff of_nat_numeral of_nat_power)
  also have "\<dots> < 1 / a" unfolding ofk c_def by linarith
  finally have "2 ^ (bit_length k - 1) < 1 / a" .
  then have "a < 1 / 2 ^ (bit_length k - 1)"
    using assms by (simp add: field_simps)
  moreover have "ilog2 a + 1 = - int (bit_length k - 1)" using bp by (simp add: e)
  ultimately have hi: "a < pow2 (ilog2 a + 1)" by (simp add: pow2_neg_nat)
  from lo hi show ?thesis ..
qed


lemma round_half_even_le: "m \<le> of_int N \<Longrightarrow> round_half_even m \<le> N"
proof -
  assume le: "m \<le> of_int N"
  then have f: "\<lfloor>m\<rfloor> \<le> N" by (simp add: floor_le_iff) 
  show ?thesis
  proof (cases "frac m = 0")
    case True
    then have "frac m < 1 / 2" by linarith
    then show ?thesis using f by (simp add: round_half_even_def)
  next
    case False
    then have "m \<noteq> of_int N" by (metis frac_of_int)
    with le have "m < of_int N" by simp
    then have "\<lfloor>m\<rfloor> < N" by (simp add: floor_less_iff)
    then show ?thesis by (simp add: round_half_even_def)
  qed
qed

lemma round_half_even_ge: "of_int N \<le> m \<Longrightarrow> N \<le> round_half_even m"
proof -
  assume "of_int N \<le> m"
  then have "N \<le> \<lfloor>m\<rfloor>" by (simp add: le_floor_iff)
  then show ?thesis by (simp add: round_half_even_def)
qed

lemma round_at_nonneg: "0 \<le> a \<Longrightarrow> 0 \<le> round_at e a"
proof -
  assume "0 \<le> a"
  then have "of_int 0 \<le> a / pow2 (e - 52)" using pow2_pos [of "e - 52"] by simp
  then have "0 \<le> round_half_even (a / pow2 (e - 52))" by (rule round_half_even_ge)
  then show ?thesis using pow2_pos [of "e - 52"] by (simp add: round_at_def)
qed

lemma round_double_pos_cases:
  assumes "0 < x"
  shows "round_double x = PosInf \<or>
         round_double x = Fin (round_at (max (ilog2 x) (- 1022)) x)"
  using assms by (simp add: round_double_def round_mag_def pack_double_def)

lemma round_double_nonneg:
  assumes "0 \<le> x"
  shows "round_double x = PosInf \<or> (\<exists>y. round_double x = Fin y \<and> 0 \<le> y)"
proof (cases "x = 0")
  case True
  then show ?thesis by (simp add: round_double_def)
next
  case False
  with assms have "0 < x" by simp
  from round_double_pos_cases [OF this] round_at_nonneg [OF assms] show ?thesis by auto
qed

lemma pow2_int_grid:
  assumes "e \<le> 52"
  shows "1 / pow2 (e - 52) = of_int (2 ^ nat (52 - e))"
proof -
  have "pow2 (e - 52) = pow2 (- int (nat (52 - e)))" using assms by simp
  then show ?thesis by (simp only: pow2_neg_nat) simp
qed

lemma round_double_le_int:
  assumes "0 \<le> x" "x \<le> of_int N" "N < 2 ^ 53"
  shows "\<exists>y. round_double x = Fin y \<and> 0 \<le> y \<and> y \<le> of_int N"
proof (cases "x = 0")
  case True
  then show ?thesis using assms by (simp add: round_double_def)
next
  case False
  with assms have x: "0 < x" by simp
  define e where "e = ilog2 x"
  define e' where "e' = max e (- 1022)"
  have "pow2 e \<le> x" using ilog2_bounds [OF x] by (simp add: e_def)
  also have "x < pow2 53" using assms by (simp add: pow2_def) 
  finally have "pow2 e < pow2 53" .
  then have e53: "e < 53" using pow2_mono [of 53 e] by (cases "e < 53") auto
  then have e': "e' \<le> 52" by (simp add: e'_def)
  define J :: int where "J = 2 ^ nat (52 - e')"
  have q: "1 / pow2 (e' - 52) = of_int J" unfolding J_def using e' by (rule pow2_int_grid)
  have qpos: "0 < pow2 (e' - 52)" by (rule pow2_pos)
  have Jpos: "0 < J" by (simp add: J_def)
  have "x / pow2 (e' - 52) = x * (1 / pow2 (e' - 52))" by simp
  also have "\<dots> = x * of_int J" by (simp only: q)
  also have "\<dots> \<le> of_int N * of_int J" using assms Jpos by simp
  finally have "x / pow2 (e' - 52) \<le> of_int (N * J)" by simp
  then have r: "round_half_even (x / pow2 (e' - 52)) \<le> N * J" by (rule round_half_even_le)
  have pq: "pow2 (e' - 52) = 1 / of_int J" by (simp add: q [symmetric])
  have "round_at e' x \<le> of_int (N * J) * pow2 (e' - 52)"
    unfolding round_at_def using r qpos by (simp del: of_int_mult)
  also have "\<dots> = of_int N" using Jpos by (simp add: pq)
  finally have up: "round_at e' x \<le> of_int N" .
  have lo: "0 \<le> round_at e' x" using assms(1) by (rule round_at_nonneg)
  have "round_double x = Fin (round_at e' x)"
    using x e53 by (simp add: round_double_def round_mag_def pack_double_def overflows_def e_def e'_def)
  with up lo show ?thesis by simp
qed

lemma round_double_ge_int:
  assumes "of_int N \<le> x" "0 < N" "N \<le> 2 ^ 53"
  shows "round_double x = PosInf \<or> (\<exists>y. round_double x = Fin y \<and> of_int N \<le> y)"
proof -
  have x1: "1 \<le> x" using assms by (smt (verit) of_int_1_le_iff order_trans)
  then have x: "0 < x" by simp
  define e where "e = ilog2 x"
  have b: "pow2 e \<le> x" "x < pow2 (e + 1)" using ilog2_bounds [OF x] by (simp_all add: e_def)
  have "pow2 0 < pow2 (e + 1)" using x1 b(2) by (simp add: pow2_def)
  then have e0: "0 \<le> e" using pow2_mono [of "e + 1" 0] by (cases "0 \<le> e") auto
  then have e': "max (ilog2 x) (- 1022) = e" by (simp add: e_def)
  have rd: "round_double x = PosInf \<or> round_double x = Fin (round_at e x)"
    using round_double_pos_cases [OF x] by (simp only: e')
  have qpos: "0 < pow2 (e - 52)" by (rule pow2_pos)
  have "of_int N \<le> round_at e x"
  proof (cases "e \<le> 52")
    case True
    define J :: int where "J = 2 ^ nat (52 - e)"
    have q: "1 / pow2 (e - 52) = of_int J" unfolding J_def using True by (rule pow2_int_grid)
    have Jpos: "0 < J" by (simp add: J_def)
    have "of_int (N * J) = of_int N * (of_int J :: rat)" by simp
    also have "\<dots> \<le> x * of_int J" using assms Jpos by simp
    also have "\<dots> = x * (1 / pow2 (e - 52))" by (simp only: q)
    also have "\<dots> = x / pow2 (e - 52)" by simp
    finally have "N * J \<le> round_half_even (x / pow2 (e - 52))" by (rule round_half_even_ge)
    then have "of_int (N * J) * pow2 (e - 52) \<le> round_at e x"
      unfolding round_at_def using qpos by (simp del: of_int_mult)
    moreover have "pow2 (e - 52) = 1 / of_int J" by (simp add: q [symmetric])
    ultimately show ?thesis using Jpos by simp
  next
    case False
    have "pow2 52 * pow2 (e - 52) = pow2 e" using pow2_add [of 52 "e - 52"] by simp
    then have "of_int (2 ^ 52) = pow2 e / pow2 (e - 52)" using qpos by (simp add: field_simps pow2_def)
    also have "\<dots> \<le> x / pow2 (e - 52)" using b(1) qpos by (simp add: divide_right_mono)
    finally have "2 ^ 52 \<le> round_half_even (x / pow2 (e - 52))" by (rule round_half_even_ge)
    then have "of_int (2 ^ 52) * pow2 (e - 52) \<le> round_at e x"
      unfolding round_at_def using qpos by simp
    moreover have "of_int (2 ^ 52) * pow2 (e - 52) = pow2 e"
      using pow2_add [of 52 "e - 52"] by (simp add: pow2_def)
    moreover have "pow2 53 \<le> pow2 e" using False by (intro pow2_mono) simp
    moreover have "of_int N \<le> pow2 53" using assms(3) by (simp add: pow2_def)
    ultimately show ?thesis by linarith
  qed
  with rd show ?thesis by auto
qed

text \<open>
  The rounded value lies on the grid of its binade and within half a grid step of the
  exact one.
\<close>

lemma round_half_even_error: "\<bar>of_int (round_half_even m) - m\<bar> \<le> 1 / 2"
proof -
  have f: "m = of_int \<lfloor>m\<rfloor> + frac m" by (simp add: frac_def)
  have "0 \<le> frac m" "frac m < 1" by (simp_all add: frac_lt_1)
  then show ?thesis
    unfolding round_half_even_def using f by (auto simp: abs_if) linarith+
qed

lemma round_at_error: "\<bar>round_at e a - a\<bar> \<le> pow2 (e - 53)"
proof -
  define q where "q = pow2 (e - 52)"
  have q: "0 < q" by (simp add: q_def pow2_pos)
  have half: "pow2 (e - 53) = q / 2"
    using pow2_add [of "e - 53" 1] by (simp add: q_def pow2_def)
  have "round_at e a - a = (of_int (round_half_even (a / q)) - a / q) * q"
    using q by (simp add: round_at_def q_def field_simps)
  then have "\<bar>round_at e a - a\<bar> = \<bar>of_int (round_half_even (a / q)) - a / q\<bar> * q"
    using q by (simp add: abs_mult)
  also have "\<dots> \<le> 1 / 2 * q"
    using round_half_even_error [of "a / q"] q by (intro mult_right_mono) simp_all
  finally show ?thesis by (simp add: half)
qed

lemma round_double_nearest:
  assumes "round_double x = Fin y" "x \<noteq> 0"
  shows "\<bar>y - x\<bar> \<le> pow2 (max (ilog2 \<bar>x\<bar>) (- 1022) - 53)"
    and "\<exists>n. \<bar>y\<bar> = of_int n * pow2 (max (ilog2 \<bar>x\<bar>) (- 1022) - 52)"
proof -
  define e where "e = max (ilog2 \<bar>x\<bar>) (- 1022)"
  have y: "y = (if x < 0 then - round_at e \<bar>x\<bar> else round_at e \<bar>x\<bar>)"
    using assms by (simp add: round_double_def round_mag_def pack_double_def e_def
        split: if_splits)
  have "\<bar>y - x\<bar> = \<bar>round_at e \<bar>x\<bar> - \<bar>x\<bar>\<bar>"
    by (simp add: y abs_if)
  then show "\<bar>y - x\<bar> \<le> pow2 (max (ilog2 \<bar>x\<bar>) (- 1022) - 53)"
    using round_at_error [of e "\<bar>x\<bar>"] by (simp add: e_def)
  have "0 \<le> round_at e \<bar>x\<bar>" by (rule round_at_nonneg) simp
  then have "\<bar>y\<bar> = round_at e \<bar>x\<bar>" by (simp add: y)
  then show "\<exists>n. \<bar>y\<bar> = of_int n * pow2 (max (ilog2 \<bar>x\<bar>) (- 1022) - 52)"
    by (auto simp: round_at_def e_def)
qed

text \<open>Some doubles known from practice, as a check of the model.\<close>

lemma known_doubles:
  "lit (1 / 10) = Fin (3602879701896397 / 36028797018963968)"
  "fadd (lit (1 / 10)) (lit (2 / 10)) = Fin (1351079888211149 / 4503599627370496)"
  "flt (lit (3 / 10)) (fadd (lit (1 / 10)) (lit (2 / 10)))"
  "fmul (lit 100) (lit (11 / 10)) = Fin (7740561859543041 / 70368744177664)"
  by (simp_all add: lit_coefficients rd_eval)

section \<open>The valid answers are the keys of the tables\<close>

lemma table_keys:
  "map fst firmSizeRisk = map firm_size_key [SmallFirm, MediumFirm, LargeFirm]"
  "map fst bilingualRisk = map exposure_key [LowShare, MediumShare, HighShare]"
  "map fst regionalPressure = map region_key [Brussels, Antwerp, Liege, OtherRegion]"
  "map fst hiringPressureRisk =
     map pressure_key [StablePressure, ModeratePressure, AggressivePressure]"
  by (simp_all add: firmSizeRisk_def bilingualRisk_def regionalPressure_def
      hiringPressureRisk_def)

lemma firm_size_all: "(\<exists>fs. P (firm_size_key fs)) = (P ''small'' \<or> P ''medium'' \<or> P ''large'')"
proof
  assume "\<exists>fs. P (firm_size_key fs)"
  then obtain fs where "P (firm_size_key fs)" ..
  then show "P ''small'' \<or> P ''medium'' \<or> P ''large''" by (cases fs) simp_all
next
  assume "P ''small'' \<or> P ''medium'' \<or> P ''large''"
  then show "\<exists>fs. P (firm_size_key fs)"
    using firm_size_key.simps by metis
qed

lemma exposure_all: "(\<exists>bl. P (exposure_key bl)) = (P ''low'' \<or> P ''medium'' \<or> P ''high'')"
proof
  assume "\<exists>bl. P (exposure_key bl)"
  then obtain bl where "P (exposure_key bl)" ..
  then show "P ''low'' \<or> P ''medium'' \<or> P ''high''" by (cases bl) simp_all
next
  assume "P ''low'' \<or> P ''medium'' \<or> P ''high''"
  then show "\<exists>bl. P (exposure_key bl)"
    using exposure_key.simps by metis
qed

lemma region_all:
  "(\<exists>rg. P (region_key rg)) = (P ''brussels'' \<or> P ''antwerp'' \<or> P ''liege'' \<or> P ''other'')"
proof
  assume "\<exists>rg. P (region_key rg)"
  then obtain rg where "P (region_key rg)" ..
  then show "P ''brussels'' \<or> P ''antwerp'' \<or> P ''liege'' \<or> P ''other''"
    by (cases rg) simp_all
next
  assume "P ''brussels'' \<or> P ''antwerp'' \<or> P ''liege'' \<or> P ''other''"
  then show "\<exists>rg. P (region_key rg)"
    using region_key.simps by metis
qed

lemma pressure_all:
  "(\<exists>hp. P (pressure_key hp)) = (P ''stable'' \<or> P ''moderate'' \<or> P ''aggressive'')"
proof
  assume "\<exists>hp. P (pressure_key hp)"
  then obtain hp where "P (pressure_key hp)" ..
  then show "P ''stable'' \<or> P ''moderate'' \<or> P ''aggressive''" by (cases hp) simp_all
next
  assume "P ''stable'' \<or> P ''moderate'' \<or> P ''aggressive''"
  then show "\<exists>hp. P (pressure_key hp)"
    using pressure_key.simps by metis
qed

lemma firmSize_resolved:
  "(get_prop firmSizeRisk k \<noteq> None) = (\<exists>fs. k = Some (firm_size_key fs))"
  using firm_size_all [of "\<lambda>s. k = Some s"]
  by (cases k) (auto simp: get_prop_def js_string_def firmSizeRisk_def)

lemma bilingual_resolved:
  "(get_prop bilingualRisk k \<noteq> None) = (\<exists>bl. k = Some (exposure_key bl))"
  using exposure_all [of "\<lambda>s. k = Some s"]
  by (cases k) (auto simp: get_prop_def js_string_def bilingualRisk_def)

lemma region_resolved:
  "(get_prop regionalPressure k \<noteq> None) = (\<exists>rg. k = Some (region_key rg))"
  using region_all [of "\<lambda>s. k = Some s"]
  by (cases k) (auto simp: get_prop_def js_string_def regionalPressure_def)

lemma hiring_resolved:
  "(get_prop hiringPressureRisk k \<noteq> None) = (\<exists>hp. k = Some (pressure_key hp))"
  using pressure_all [of "\<lambda>s. k = Some s"]
  by (cases k) (auto simp: get_prop_def js_string_def hiringPressureRisk_def)

lemma resolved_iff_answers:
  "(get_prop firmSizeRisk (firmSize fd) \<noteq> None
    \<and> get_prop bilingualRisk (bilingualExposure fd) \<noteq> None
    \<and> get_prop regionalPressure (region fd) \<noteq> None
    \<and> get_prop hiringPressureRisk (hiringPressure fd) \<noteq> None)
   = (\<exists>fs bl rg hp. fd = answers fs bl rg hp)"
  unfolding firmSize_resolved bilingual_resolved region_resolved hiring_resolved
  by (cases fd) (auto simp: answers_def)

lemma firm_size_UNIV: "UNIV = {SmallFirm, MediumFirm, LargeFirm}"
  using firm_size.exhaust by auto

lemma exposure_UNIV: "UNIV = {LowShare, MediumShare, HighShare}"
  using exposure.exhaust by auto

lemma region_name_UNIV: "UNIV = {Brussels, Antwerp, Liege, OtherRegion}"
  using region_name.exhaust by auto

lemma pressure_UNIV: "UNIV = {StablePressure, ModeratePressure, AggressivePressure}"
  using pressure.exhaust by auto

lemma valid_combinations_count:
  "card (UNIV :: (firm_size \<times> exposure \<times> region_name \<times> pressure) set) = 108"
proof -
  have "card (UNIV :: firm_size set) = 3" "card (UNIV :: exposure set) = 3"
    "card (UNIV :: region_name set) = 4" "card (UNIV :: pressure set) = 3"
    by (simp_all add: firm_size_UNIV exposure_UNIV region_name_UNIV pressure_UNIV)
  then show ?thesis by (simp add: card_cartesian_product flip: UNIV_Times_UNIV)
qed

lemma key_inj:
  "(firm_size_key fs = firm_size_key fs') = (fs = fs')"
  "(exposure_key bl = exposure_key bl') = (bl = bl')"
  "(region_key rg = region_key rg') = (rg = rg')"
  "(pressure_key hp = pressure_key hp') = (hp = hp')"
     apply (cases fs; cases fs'; simp)
    apply (cases bl; cases bl'; simp)
   apply (cases rg; cases rg'; simp)
  apply (cases hp; cases hp'; simp)
  done

lemma answers_inj:
  "(answers fs bl rg hp = answers fs' bl' rg' hp') = (fs = fs' \<and> bl = bl' \<and> rg = rg' \<and> hp = hp')"
  by (simp add: answers_def key_inj)

section \<open>The score\<close>

lemma round_double_nonneg_num: "0 \<le> x \<Longrightarrow> nonneg_num (round_double x)"
  using round_double_nonneg [of x] by auto

lemma fmul_nonneg:
  "nonneg_num x \<Longrightarrow> in_range lo hi y \<Longrightarrow> 0 < lo \<Longrightarrow> nonneg_num (fmul x y)"
  by (cases x; cases y) (simp_all add: round_double_nonneg_num inf_of_sign_def)

lemma fadd_nonneg: "nonneg_num x \<Longrightarrow> 0 \<le> b \<Longrightarrow> nonneg_num (fadd x (Fin b))"
  by (cases x) (simp_all add: round_double_nonneg_num)

lemma clamp_eq: "Math_min (lit 100) (Math_max (lit 0) x) = clamp_0_100 x"
  by (cases x) (auto simp: lit_integers clamp_0_100_def)

lemma min_100_eq_clamp: "nonneg_num x \<Longrightarrow> Math_min (lit 100) x = clamp_0_100 x"
  by (cases x) (auto simp: lit_integers clamp_0_100_def)

lemma clamp_in_range: "nonneg_num x \<Longrightarrow> in_range 0 100 (clamp_0_100 x)"
  by (cases x) (auto simp: lit_integers clamp_0_100_def)

lemma firmSize_lookup:
  "to_number (get_prop firmSizeRisk (Some (firm_size_key fs))) = firmSizeCoeff fs"
  by (cases fs) (simp_all add: get_prop_def js_string_def to_number_def firmSizeRisk_def)

lemma bilingual_lookup:
  "to_number (get_prop bilingualRisk (Some (exposure_key bl))) = bilingualCoeff bl"
  by (cases bl) (simp_all add: get_prop_def js_string_def to_number_def bilingualRisk_def)

lemma region_lookup:
  "to_number (get_prop regionalPressure (Some (region_key rg))) = regionCoeff rg"
  by (cases rg) (simp_all add: get_prop_def js_string_def to_number_def regionalPressure_def)

lemma hiring_lookup:
  "to_number (get_prop hiringPressureRisk (Some (pressure_key hp))) = hiringCoeff hp"
  by (cases hp) (simp_all add: get_prop_def js_string_def to_number_def hiringPressureRisk_def)

lemma rawScore_answers: "rawScore (answers fs bl rg hp) = spec_raw fs bl rg hp"
  by (simp add: rawScore_def spec_raw_def answers_def firmSize_lookup bilingual_lookup
      region_lookup hiring_lookup)

lemma firmSizeCoeff_pos: "in_range (1 / 2) 2 (firmSizeCoeff fs)"
  by (cases fs) (simp_all add: lit_coefficients lit_integers)

lemma bilingualCoeff_pos: "in_range (1 / 2) 2 (bilingualCoeff bl)"
  by (cases bl) (simp_all add: lit_coefficients lit_integers)

lemma regionCoeff_pos: "in_range (1 / 2) 2 (regionCoeff rg)"
  by (cases rg) (simp_all add: lit_coefficients lit_integers)

lemma hiringCoeff_pos: "in_range (1 / 2) 2 (hiringCoeff hp)"
  by (cases hp) (simp_all add: lit_coefficients lit_integers)

lemma spec_raw_nonneg: "nonneg_num (spec_raw fs bl rg hp)"
proof -
  have half: "(0::rat) < 1 / 2" by simp
  have "nonneg_num (lit 50)" by (simp add: lit_integers)
  then have "nonneg_num (fmul (lit 50) (firmSizeCoeff fs))"
    using firmSizeCoeff_pos half by (rule fmul_nonneg)
  then have "nonneg_num (fmul (fmul (lit 50) (firmSizeCoeff fs)) (bilingualCoeff bl))"
    using bilingualCoeff_pos half by (rule fmul_nonneg)
  then have "nonneg_num (fmul (fmul (fmul (lit 50) (firmSizeCoeff fs)) (bilingualCoeff bl))
      (regionCoeff rg))"
    using regionCoeff_pos half by (rule fmul_nonneg)
  then show ?thesis
    unfolding spec_raw_def using hiringCoeff_pos half by (rule fmul_nonneg)
qed

lemma score_answers: "riskScore (calculateRisk (answers fs bl rg hp)) = spec_score fs bl rg hp"
  by (simp add: calculateRisk_parts riskResult_def normalizedScore_def rawScore_answers clamp_eq
      spec_score_def)

lemma spec_score_in_range: "in_range 0 100 (spec_score fs bl rg hp)"
  unfolding spec_score_def using spec_raw_nonneg by (rule clamp_in_range)

text \<open>
  Rounding never moves a score across a threshold: for each of the 108 combinations the
  score in doubles is within \<open>1 / 10 ^ 13\<close> of the score in exact arithmetic and in the same
  tier. (The products of the first two coefficients are exact.)
\<close>

lemma two_factor_products:
  "fmul (fmul (lit 50) (firmSizeCoeff fs)) (bilingualCoeff bl)
     = Fin (50 * firmSizeDecimal fs * bilingualDecimal bl)"
  by (cases fs; cases bl) (simp_all add: lit_coefficients lit_integers rd_eval)

lemma score_agrees_small:
  "case spec_score SmallFirm bl rg hp of
     Fin s \<Rightarrow> \<bar>s - exact_score SmallFirm bl rg hp\<bar> \<le> 1 / 10 ^ 13
       \<and> spec_tier s = spec_tier (exact_score SmallFirm bl rg hp)
   | _ \<Rightarrow> False"
  unfolding spec_score_def spec_raw_def two_factor_products
  by (cases bl; cases rg; cases hp)
    (simp_all add: exact_score_def exact_raw_def clamp_0_100_def spec_tier_def lit_coefficients
      lit_integers rd_eval)

lemma score_agrees_medium:
  "case spec_score MediumFirm bl rg hp of
     Fin s \<Rightarrow> \<bar>s - exact_score MediumFirm bl rg hp\<bar> \<le> 1 / 10 ^ 13
       \<and> spec_tier s = spec_tier (exact_score MediumFirm bl rg hp)
   | _ \<Rightarrow> False"
  unfolding spec_score_def spec_raw_def two_factor_products
  by (cases bl; cases rg; cases hp)
    (simp_all add: exact_score_def exact_raw_def clamp_0_100_def spec_tier_def lit_coefficients
      lit_integers rd_eval)

lemma score_agrees_large:
  "case spec_score LargeFirm bl rg hp of
     Fin s \<Rightarrow> \<bar>s - exact_score LargeFirm bl rg hp\<bar> \<le> 1 / 10 ^ 13
       \<and> spec_tier s = spec_tier (exact_score LargeFirm bl rg hp)
   | _ \<Rightarrow> False"
  unfolding spec_score_def spec_raw_def two_factor_products
  by (cases bl; cases rg; cases hp)
    (simp_all add: exact_score_def exact_raw_def clamp_0_100_def spec_tier_def lit_coefficients
      lit_integers rd_eval)

lemma score_agrees:
  "case spec_score fs bl rg hp of
     Fin s \<Rightarrow> \<bar>s - exact_score fs bl rg hp\<bar> \<le> 1 / 10 ^ 13
       \<and> spec_tier s = spec_tier (exact_score fs bl rg hp)
   | _ \<Rightarrow> False"
proof (cases fs)
  case SmallFirm
  show ?thesis unfolding SmallFirm by (rule score_agrees_small)
next
  case MediumFirm
  show ?thesis unfolding MediumFirm by (rule score_agrees_medium)
next
  case LargeFirm
  show ?thesis unfolding LargeFirm by (rule score_agrees_large)
qed


lemma exact_score_close:
  "in_range (exact_score fs bl rg hp - 1 / 10 ^ 13) (exact_score fs bl rg hp + 1 / 10 ^ 13)
     (spec_score fs bl rg hp)"
proof (cases "spec_score fs bl rg hp")
  case (Fin s)
  with score_agrees [of fs bl rg hp]
  have "\<bar>s - exact_score fs bl rg hp\<bar> \<le> 1 / 10 ^ 13" by simp
  then have "s - exact_score fs bl rg hp \<le> 1 / 10 ^ 13
      \<and> - (s - exact_score fs bl rg hp) \<le> 1 / 10 ^ 13"
    by (simp only: abs_le_iff)
  then have "exact_score fs bl rg hp - 1 / 10 ^ 13 \<le> s"
    "s \<le> exact_score fs bl rg hp + 1 / 10 ^ 13"
    by linarith+
  then show ?thesis by (simp only: Fin in_range.simps simp_thms)
qed (use score_agrees [of fs bl rg hp] in simp_all)

lemma exact_tier:
  "spec_score fs bl rg hp = Fin s \<Longrightarrow> spec_tier s = spec_tier (exact_score fs bl rg hp)"
  using score_agrees [of fs bl rg hp] by simp

text \<open>
  C1: for each of the 108 combinations of valid answers, the score that \<^verbatim>\<open>calculateRisk\<close>
  returns is 50 multiplied in turn by the four coefficients of the specification's
  tables, clamped to the interval from 0 to 100, and it is a finite number of that interval.
  The arithmetic is that of doubles on both sides; read in exact arithmetic on the decimal
  coefficients the formula gives a value that differs from the score by \<open>1 / 10 ^ 13\<close> at most.
  (The score is a function of the answers, so it is deterministic.)
\<close>

theorem risk_score_formula:
  "riskScore (calculateRisk (answers fs bl rg hp)) = spec_score fs bl rg hp
   \<and> in_range 0 100 (riskScore (calculateRisk (answers fs bl rg hp)))
   \<and> in_range (exact_score fs bl rg hp - 1 / 10 ^ 13) (exact_score fs bl rg hp + 1 / 10 ^ 13)
         (riskScore (calculateRisk (answers fs bl rg hp)))"
  by (simp only: score_answers spec_score_in_range exact_score_close simp_thms)

lemma sample_raw_scores:
  "rawScore (answers SmallFirm LowShare Liege StablePressure) = lit (2016 / 100)"
  "rawScore (answers MediumFirm MediumShare OtherRegion ModeratePressure) = lit 50"
  "rawScore (answers LargeFirm MediumShare OtherRegion ModeratePressure) = lit 60"
  "rawScore (answers LargeFirm HighShare Brussels AggressivePressure) = lit (14196 / 100)"
  by (simp_all add: rawScore_def answers_def get_prop_def js_string_def to_number_def
      firmSizeRisk_def bilingualRisk_def regionalPressure_def hiringPressureRisk_def
      lit_coefficients lit_integers rd_eval)

lemmas tier_eval =
  calculateRisk_parts riskResult_def normalizedScore_def riskTier_def sample_raw_scores
  lit_integers rd_eval

text \<open>
  C6: the two worked examples. The answers small, low, liege, stable give the raw score
  50 * 0.8 * 0.7 * 0.9 * 0.8, which is the double 20.16 (and 20.16 in exact arithmetic),
  and the tier Low; the answers medium, medium, other, moderate give the raw score 50 and
  the tier Moderate.
\<close>

theorem worked_examples:
  "rawScore (answers SmallFirm LowShare Liege StablePressure)
     = fmul (fmul (fmul (fmul (lit 50) (lit (8 / 10))) (lit (7 / 10))) (lit (9 / 10))) (lit (8 / 10))
   \<and> rawScore (answers SmallFirm LowShare Liege StablePressure) = lit (2016 / 100)
   \<and> exact_raw SmallFirm LowShare Liege StablePressure = 2016 / 100
   \<and> riskLevel (calculateRisk (answers SmallFirm LowShare Liege StablePressure)) = ''Low''
   \<and> riskClass (calculateRisk (answers SmallFirm LowShare Liege StablePressure)) = ''low''
   \<and> rawScore (answers MediumFirm MediumShare OtherRegion ModeratePressure)
     = fmul (fmul (fmul (fmul (lit 50) (lit 1)) (lit 1)) (lit 1)) (lit 1)
   \<and> rawScore (answers MediumFirm MediumShare OtherRegion ModeratePressure) = lit 50
   \<and> exact_raw MediumFirm MediumShare OtherRegion ModeratePressure = 50
   \<and> riskLevel (calculateRisk (answers MediumFirm MediumShare OtherRegion ModeratePressure))
     = ''Moderate''
   \<and> riskClass (calculateRisk (answers MediumFirm MediumShare OtherRegion ModeratePressure))
     = ''moderate''"
proof -
  have "rawScore (answers SmallFirm LowShare Liege StablePressure)
     = fmul (fmul (fmul (fmul (lit 50) (lit (8 / 10))) (lit (7 / 10))) (lit (9 / 10))) (lit (8 / 10))"
    by (simp add: rawScore_answers spec_raw_def)
  moreover have "rawScore (answers MediumFirm MediumShare OtherRegion ModeratePressure)
     = fmul (fmul (fmul (fmul (lit 50) (lit 1)) (lit 1)) (lit 1)) (lit 1)"
    by (simp add: rawScore_answers spec_raw_def)
  moreover have "riskLevel (calculateRisk (answers SmallFirm LowShare Liege StablePressure)) = ''Low''"
    by (simp add: tier_eval)
  moreover have "riskClass (calculateRisk (answers SmallFirm LowShare Liege StablePressure)) = ''low''"
    by (simp add: tier_eval)
  moreover have
    "riskLevel (calculateRisk (answers MediumFirm MediumShare OtherRegion ModeratePressure))
       = ''Moderate''"
    by (simp add: tier_eval)
  moreover have
    "riskClass (calculateRisk (answers MediumFirm MediumShare OtherRegion ModeratePressure))
       = ''moderate''"
    by (simp add: tier_eval)
  moreover have "exact_raw SmallFirm LowShare Liege StablePressure = 2016 / 100"
    "exact_raw MediumFirm MediumShare OtherRegion ModeratePressure = 50"
    by (simp_all add: exact_raw_def)
  ultimately show ?thesis by (simp only: sample_raw_scores simp_thms)
qed

section \<open>Tiers and sub-indicators\<close>

lemma riskTier_Fin:
  "riskTier (Fin s) =
     (tier_level (spec_tier s), tier_class (spec_tier s), tier_description (spec_tier s))"
  by (simp add: riskTier_def spec_tier_def lit_integers)

lemma in_range_cases:
  assumes "in_range lo hi x"
  obtains r where "x = Fin r" "lo \<le> r" "r \<le> hi"
  using assms by (cases x) auto

lemma round_double_in_range_0:
  assumes "0 \<le> x" "x \<le> of_int hi" "hi < 2 ^ 53"
  shows "in_range 0 (of_int hi) (round_double x)"
  using round_double_le_int [OF assms] by auto

lemma round_double_in_range:
  assumes "of_int lo \<le> x" "x \<le> of_int hi" "0 < lo" "hi < 2 ^ 53"
  shows "in_range (of_int lo) (of_int hi) (round_double x)"
proof -
  have "0 \<le> x" using assms(1,3) by (smt (verit) of_int_0_le_iff order_trans)
  from round_double_le_int [OF this assms(2,4)]
  obtain y where y: "round_double x = Fin y" "y \<le> of_int hi" by blast
  have "lo \<le> 2 ^ 53" using assms by (smt (verit) of_int_le_iff order_trans)
  from round_double_ge_int [OF assms(1,3) this] y show ?thesis by auto
qed

lemma score_in_range: "in_range 0 100 (riskScore (calculateRisk (answers fs bl rg hp)))"
  by (simp add: score_answers spec_score_in_range)

lemma indicators_calculateRisk:
  "indicators (calculateRisk fd) = riskIndicators fd (riskScore (calculateRisk fd))"
  by (simp add: calculateRisk_parts riskResult_def)

lemma scaled_nonneg:
  assumes "in_range 0 100 score" "in_range 1 2 c"
  shows "nonneg_num (fmul score c)"
proof -
  from assms(1) have "nonneg_num score" by (cases score) auto
  then show ?thesis using assms(2) by (rule fmul_nonneg) simp
qed

lemma bilingualPressure_raw_nonneg:
  assumes "in_range 0 100 score"
  shows "nonneg_num (fadd (fmul score (lit (11 / 10))) (if b then lit 15 else lit 0))"
proof -
  have "in_range 1 2 (lit (11 / 10))" by (simp add: lit_coefficients)
  with assms have "nonneg_num (fmul score (lit (11 / 10)))" by (rule scaled_nonneg)
  then show ?thesis by (cases b) (simp_all add: lit_integers fadd_nonneg)
qed

lemma scarcityExposure_raw_nonneg:
  assumes "in_range 0 100 score"
  shows "nonneg_num (fmul score (lit (12 / 10)))"
proof -
  have "in_range 1 2 (lit (12 / 10))" by (simp add: lit_coefficients)
  with assms show ?thesis by (rule scaled_nonneg)
qed

lemma aiLeverage_product:
  assumes "in_range 0 100 score"
  shows "in_range 0 30 (fmul score (lit (3 / 10)))"
proof -
  from assms obtain s where s: "score = Fin s" "0 \<le> s" "s \<le> 100" by (rule in_range_cases)
  define c :: rat where "c = 5404319552844595 / 18014398509481984"
  have c: "0 \<le> c" "100 * c \<le> 30" by (simp_all add: c_def)
  have "s * c \<le> 100 * c" using s(3) c(1) by (rule mult_right_mono)
  with c(2) have up: "s * c \<le> of_int 30" by simp
  have lo: "0 \<le> s * c" using s(2) c(1) by simp
  have "in_range 0 (of_int 30) (round_double (s * c))"
    using lo up by (rule round_double_in_range_0) simp
  then show ?thesis by (simp add: s lit_coefficients c_def)
qed

lemma aiLeverage_difference:
  assumes "in_range 0 30 t"
  shows "in_range 70 100 (fsub (lit 100) t)"
proof -
  from assms obtain r where r: "t = Fin r" "0 \<le> r" "r \<le> 30" by (rule in_range_cases)
  have "in_range (of_int 70) (of_int 100) (round_double (100 - r))"
    using r by (intro round_double_in_range) simp_all
  then show ?thesis by (simp add: r fsub_def lit_integers)
qed

lemma aiLeverage_sum:
  assumes "in_range 70 100 u"
  shows "in_range 70 120 (fadd u (if b then lit 20 else lit 0))"
proof -
  from assms obtain r where r: "u = Fin r" "70 \<le> r" "r \<le> 100" by (rule in_range_cases)
  have "in_range (of_int 70) (of_int 120) (round_double (r + 20))"
    using r by (intro round_double_in_range) simp_all
  moreover have "in_range (of_int 70) (of_int 120) (round_double (r + 0))"
    using r by (intro round_double_in_range) simp_all
  ultimately show ?thesis by (cases b) (simp_all add: r lit_integers)
qed

lemma aiLeverage_raw:
  assumes "in_range 0 100 score"
  shows "in_range 70 120
     (fadd (fsub (lit 100) (fmul score (lit (3 / 10)))) (if b then lit 20 else lit 0))"
  by (intro aiLeverage_sum aiLeverage_difference aiLeverage_product assms)

lemma in_range_nonneg: "in_range lo hi x \<Longrightarrow> 0 \<le> lo \<Longrightarrow> nonneg_num x"
  by (cases x) auto

lemma min_100_in_range: "in_range 70 120 x \<Longrightarrow> in_range 70 100 (Math_min (lit 100) x)"
  by (cases x) (auto simp: lit_integers)

lemma eorFeasibility_values:
  "fadd (lit 85) (lit 15) = Fin 100" "fadd (lit 85) (lit 0) = Fin 85"
  "fadd (lit 60) (lit 15) = Fin 75" "fadd (lit 60) (lit 0) = Fin 60"
  by (simp_all add: lit_integers round_double_integers)

lemma eorFeasibility_raw_nonneg:
  "nonneg_num (fadd (if a then lit 85 else lit 60) (if b then lit 15 else lit 0))"
  by (cases a; cases b) (simp_all add: eorFeasibility_values)

lemma key_tests:
  "(region_key rg = ''brussels'') = (rg = Brussels)"
  "(firm_size_key fs = ''large'') = (fs = LargeFirm)"
  "(exposure_key bl = ''high'') = (bl = HighShare)"
  "(pressure_key hp = ''aggressive'') = (hp = AggressivePressure)"
     apply (cases rg; simp)
    apply (cases fs; simp)
   apply (cases bl; simp)
  apply (cases hp; simp)
  done


text \<open>
  C2: for each combination of valid answers the score is a finite number \<open>s\<close>, and the
  label, the class and the description of the result are those of the tier of \<open>s\<close> under
  the thresholds: Low below 40, Moderate from 40 and below 60, Elevated from 60 and below
  80, Structural from 80 on (shown as \<^verbatim>\<open>Structural Risk\<close>). It is also the tier of the
  score computed in exact arithmetic. The four descriptions are four different fixed
  strings, and the ladder is exact at the boundaries 39.999, 40, 59.999, 60, 79.999 and 80.
\<close>

theorem risk_tier_thresholds:
  "(case riskScore (calculateRisk (answers fs bl rg hp)) of
      Fin s \<Rightarrow>
        riskLevel (calculateRisk (answers fs bl rg hp)) = tier_level (spec_tier s)
        \<and> riskClass (calculateRisk (answers fs bl rg hp)) = tier_class (spec_tier s)
        \<and> riskDescription (calculateRisk (answers fs bl rg hp)) = tier_description (spec_tier s)
        \<and> spec_tier s = spec_tier (exact_score fs bl rg hp)
    | _ \<Rightarrow> False)
   \<and> distinct (map tier_description [Low, Moderate, Elevated, Structural])
   \<and> fst (riskTier (lit (39999 / 1000))) = ''Low''
   \<and> fst (riskTier (lit 40)) = ''Moderate''
   \<and> fst (riskTier (lit (59999 / 1000))) = ''Moderate''
   \<and> fst (riskTier (lit 60)) = ''Elevated''
   \<and> fst (riskTier (lit (79999 / 1000))) = ''Elevated''
   \<and> fst (riskTier (lit 80)) = ''Structural Risk''"
proof -
  from score_in_range [of fs bl rg hp]
  obtain s where s: "riskScore (calculateRisk (answers fs bl rg hp)) = Fin s"
    by (rule in_range_cases)
  then have n: "normalizedScore (answers fs bl rg hp) = Fin s"
    by (simp add: calculateRisk_parts riskResult_def)
  have "spec_score fs bl rg hp = Fin s" using s by (simp only: score_answers)
  then have e: "spec_tier s = spec_tier (exact_score fs bl rg hp)" by (rule exact_tier)
  have "riskLevel (calculateRisk (answers fs bl rg hp)) = tier_level (spec_tier s)"
    "riskClass (calculateRisk (answers fs bl rg hp)) = tier_class (spec_tier s)"
    "riskDescription (calculateRisk (answers fs bl rg hp)) = tier_description (spec_tier s)"
    by (simp_all add: calculateRisk_parts riskResult_def n riskTier_Fin)
  with e have 1: "case riskScore (calculateRisk (answers fs bl rg hp)) of
      Fin s \<Rightarrow>
        riskLevel (calculateRisk (answers fs bl rg hp)) = tier_level (spec_tier s)
        \<and> riskClass (calculateRisk (answers fs bl rg hp)) = tier_class (spec_tier s)
        \<and> riskDescription (calculateRisk (answers fs bl rg hp)) = tier_description (spec_tier s)
        \<and> spec_tier s = spec_tier (exact_score fs bl rg hp)
    | _ \<Rightarrow> False"
    by (simp add: s)
  have 2: "distinct (map tier_description [Low, Moderate, Elevated, Structural])"
    by simp
  have 3: "fst (riskTier (lit (39999 / 1000))) = ''Low''"
    "fst (riskTier (lit 40)) = ''Moderate''"
    "fst (riskTier (lit (59999 / 1000))) = ''Moderate''"
    "fst (riskTier (lit 60)) = ''Elevated''"
    "fst (riskTier (lit (79999 / 1000))) = ''Elevated''"
    "fst (riskTier (lit 80)) = ''Structural Risk''"
    by (simp_all add: riskTier_def lit_integers rd_eval)
  from 1 2 3 show ?thesis by (intro conjI)
qed

lemma all_tiers_reached:
  "riskClass (calculateRisk (answers SmallFirm LowShare Liege StablePressure)) = ''low''"
  "riskClass (calculateRisk (answers MediumFirm MediumShare OtherRegion ModeratePressure)) = ''moderate''"
  "riskClass (calculateRisk (answers LargeFirm MediumShare OtherRegion ModeratePressure)) = ''elevated''"
  "riskClass (calculateRisk (answers LargeFirm HighShare Brussels AggressivePressure)) = ''structural''"
  by (simp_all add: tier_eval)

lemma riskIndicators_answers:
  assumes "in_range 0 100 score"
  shows "riskIndicators (answers fs bl rg hp) score =
     \<lparr>bilingualPressure = spec_bilingualPressure score rg,
      scarcityExposure = spec_scarcityExposure score,
      aiLeverage = spec_aiLeverage score fs,
      eorFeasibility = spec_eorFeasibility bl hp\<rparr>"
proof -
  have "nonneg_num (fadd (fsub (lit 100) (fmul score (lit (3 / 10))))
      (if fs = LargeFirm then lit 20 else lit 0))"
    using aiLeverage_raw [OF assms] by (rule in_range_nonneg) simp
  then show ?thesis
    unfolding riskIndicators_def spec_bilingualPressure_def
      spec_scarcityExposure_def spec_aiLeverage_def spec_eorFeasibility_def
    using bilingualPressure_raw_nonneg [OF assms, of "rg = Brussels"]
      scarcityExposure_raw_nonneg [OF assms]
      eorFeasibility_raw_nonneg [of "bl = HighShare" "hp = AggressivePressure"]
    by (simp add: answers_def key_tests min_100_eq_clamp)
qed

lemma indicators_answers:
  "indicators (calculateRisk (answers fs bl rg hp)) =
     \<lparr>bilingualPressure =
        spec_bilingualPressure (riskScore (calculateRisk (answers fs bl rg hp))) rg,
      scarcityExposure = spec_scarcityExposure (riskScore (calculateRisk (answers fs bl rg hp))),
      aiLeverage = spec_aiLeverage (riskScore (calculateRisk (answers fs bl rg hp))) fs,
      eorFeasibility = spec_eorFeasibility bl hp\<rparr>"
  unfolding indicators_calculateRisk using score_in_range by (rule riskIndicators_answers)

lemma spec_indicators_in_range:
  assumes "in_range 0 100 score"
  shows "in_range 0 100 (spec_bilingualPressure score rg)"
    "in_range 0 100 (spec_scarcityExposure score)"
    "in_range 0 100 (spec_aiLeverage score fs)"
    "in_range 0 100 (spec_eorFeasibility bl hp)"
proof -
  show "in_range 0 100 (spec_bilingualPressure score rg)"
    unfolding spec_bilingualPressure_def
    by (intro clamp_in_range bilingualPressure_raw_nonneg assms)
  show "in_range 0 100 (spec_scarcityExposure score)"
    unfolding spec_scarcityExposure_def
    by (intro clamp_in_range scarcityExposure_raw_nonneg assms)
  have "nonneg_num (fadd (fsub (lit 100) (fmul score (lit (3 / 10))))
      (if fs = LargeFirm then lit 20 else lit 0))"
    using aiLeverage_raw [OF assms] by (rule in_range_nonneg) simp
  then show "in_range 0 100 (spec_aiLeverage score fs)"
    unfolding spec_aiLeverage_def by (rule clamp_in_range)
  show "in_range 0 100 (spec_eorFeasibility bl hp)"
    unfolding spec_eorFeasibility_def by (intro clamp_in_range eorFeasibility_raw_nonneg)
qed

lemma clamp_above: "flt (lit 100) x \<Longrightarrow> clamp_0_100 x = lit 100"
  by (cases x) (auto simp: clamp_0_100_def lit_integers)

lemma saturated_example:
  "riskScore (calculateRisk (answers LargeFirm HighShare Brussels AggressivePressure)) = lit 100"
  "flt (lit 100) (fadd (fmul (lit 100) (lit (11 / 10))) (lit 15))"
  "flt (lit 100) (fmul (lit 100) (lit (12 / 10)))"
  by (simp_all add: tier_eval lit_coefficients)

text \<open>
  C3: for each combination of valid answers the four sub-indicators are the
  specification's formulas of the score and the answers, each clamped to the interval
  from 0 to 100, and each is a finite number of that interval. (The script only takes the
  minimum with 100; the raw values are never negative.) With the answers large, high,
  brussels, aggressive the score is 100 and the raw values \<open>100 * 1.1 + 15\<close> and
  \<open>100 * 1.2\<close> exceed 100: both indicators are 100.
\<close>

theorem sub_indicators_formulas:
  "indicators (calculateRisk (answers fs bl rg hp)) =
     \<lparr>bilingualPressure =
        spec_bilingualPressure (riskScore (calculateRisk (answers fs bl rg hp))) rg,
      scarcityExposure = spec_scarcityExposure (riskScore (calculateRisk (answers fs bl rg hp))),
      aiLeverage = spec_aiLeverage (riskScore (calculateRisk (answers fs bl rg hp))) fs,
      eorFeasibility = spec_eorFeasibility bl hp\<rparr>
   \<and> in_range 0 100 (bilingualPressure (indicators (calculateRisk (answers fs bl rg hp))))
   \<and> in_range 0 100 (scarcityExposure (indicators (calculateRisk (answers fs bl rg hp))))
   \<and> in_range 0 100 (aiLeverage (indicators (calculateRisk (answers fs bl rg hp))))
   \<and> in_range 0 100 (eorFeasibility (indicators (calculateRisk (answers fs bl rg hp))))
   \<and> riskScore (calculateRisk (answers LargeFirm HighShare Brussels AggressivePressure))
       = lit 100
   \<and> flt (lit 100) (fadd (fmul (lit 100) (lit (11 / 10))) (lit 15))
   \<and> bilingualPressure
         (indicators (calculateRisk (answers LargeFirm HighShare Brussels AggressivePressure)))
       = lit 100
   \<and> flt (lit 100) (fmul (lit 100) (lit (12 / 10)))
   \<and> scarcityExposure
         (indicators (calculateRisk (answers LargeFirm HighShare Brussels AggressivePressure)))
       = lit 100"
proof -
  have ex: "bilingualPressure
         (indicators (calculateRisk (answers LargeFirm HighShare Brussels AggressivePressure)))
       = lit 100"
    "scarcityExposure
         (indicators (calculateRisk (answers LargeFirm HighShare Brussels AggressivePressure)))
       = lit 100"
    by (simp_all only: indicators_answers saturated_example(1) spec_bilingualPressure_def
        spec_scarcityExposure_def risk_indicators.simps simp_thms if_True
        clamp_above [OF saturated_example(2)] clamp_above [OF saturated_example(3)])
  have s: "in_range 0 100 (riskScore (calculateRisk (answers fs bl rg hp)))"
    by (rule score_in_range)
  have r: "in_range 0 100 (bilingualPressure (indicators (calculateRisk (answers fs bl rg hp))))"
    "in_range 0 100 (scarcityExposure (indicators (calculateRisk (answers fs bl rg hp))))"
    "in_range 0 100 (aiLeverage (indicators (calculateRisk (answers fs bl rg hp))))"
    "in_range 0 100 (eorFeasibility (indicators (calculateRisk (answers fs bl rg hp))))"
    by (simp_all only: indicators_answers risk_indicators.simps spec_indicators_in_range [OF s])
  from indicators_answers r saturated_example(1) saturated_example(2) ex(1)
    saturated_example(3) ex(2)
  show ?thesis by (intro conjI)
qed

lemma aiLeverage_in_range:
  assumes "in_range 0 100 score"
  shows "in_range 70 100 (aiLeverage (riskIndicators fd score))"
  unfolding riskIndicators_def risk_indicators.simps
  by (intro min_100_in_range aiLeverage_raw assms)

lemma high_band:
  assumes "in_range 70 100 v"
  shows "barClass (updateIndicator v) = [''indicator-fill'', ''high'']"
proof -
  from assms obtain r where "v = Fin r" "70 \<le> r" by (rule in_range_cases)
  then show ?thesis by (simp add: updateIndicator_def lit_integers)
qed

text \<open>
  C9: for each combination of valid answers the aiLeverage indicator is a finite number
  from 70 to 100 (the score is at most 100, so \<open>100 - score * 0.3\<close> is at least 70 also
  after rounding), and the bar that \<^verbatim>\<open>updateIndicator\<close> renders for it, alone and in the
  results panel, carries the class \<^verbatim>\<open>high\<close>.
\<close>

theorem ai_leverage_high_band:
  "in_range 70 100 (aiLeverage (indicators (calculateRisk (answers fs bl rg hp))))
   \<and> barClass (updateIndicator (aiLeverage (indicators (calculateRisk (answers fs bl rg hp)))))
       = [''indicator-fill'', ''high'']
   \<and> map_option (\<lambda>v. barClass (aiLeverageBar v))
         (results (calculateAndShowResults (w\<lparr>formData := answers fs bl rg hp\<rparr>)))
       = Some [''indicator-fill'', ''high'']"
proof -
  have r: "in_range 70 100 (aiLeverage (indicators (calculateRisk (answers fs bl rg hp))))"
    unfolding indicators_calculateRisk using score_in_range by (rule aiLeverage_in_range)
  then have b: "barClass (updateIndicator (aiLeverage (indicators (calculateRisk (answers fs bl rg hp)))))
       = [''indicator-fill'', ''high'']"
    by (rule high_band)
  then have "map_option (\<lambda>v. barClass (aiLeverageBar v))
         (results (calculateAndShowResults (w\<lparr>formData := answers fs bl rg hp\<rparr>)))
       = Some [''indicator-fill'', ''high'']"
    by (simp add: calculateAndShowResults_def)
  with r b show ?thesis by (intro conjI)
qed

lemma eorFeasibility_answers:
  "eorFeasibility (indicators (calculateRisk (answers fs bl rg hp))) =
     Fin ((if bl = HighShare then 85 else 60) + (if hp = AggressivePressure then 15 else 0))"
  by (simp add: indicators_calculateRisk riskIndicators_def answers_def key_tests
      lit_integers round_double_integers)

text \<open>
  C10: the eorFeasibility indicator depends on the answers bilingualExposure and
  hiringPressure only: two combinations of valid answers with the same two values have
  the same eorFeasibility whatever their firmSize and region. Its value is 85 or 60, plus
  15 when the hiring pressure is aggressive: one of 60, 75, 85 and 100.
\<close>

theorem eor_feasibility_two_answers:
  "eorFeasibility (indicators (calculateRisk (answers fs bl rg hp)))
     = eorFeasibility (indicators (calculateRisk (answers fs' bl rg' hp)))
   \<and> eorFeasibility (indicators (calculateRisk (answers fs bl rg hp)))
     = Fin ((if bl = HighShare then 85 else 60) + (if hp = AggressivePressure then 15 else 0))
   \<and> eorFeasibility (indicators (calculateRisk (answers fs bl rg hp)))
     \<in> {Fin 60, Fin 75, Fin 85, Fin 100}"
  by (simp add: eorFeasibility_answers)

lemma eorFeasibility_any_form_data:
  "bilingualExposure fd = bilingualExposure fd' \<Longrightarrow> hiringPressure fd = hiringPressure fd' \<Longrightarrow>
   eorFeasibility (indicators (calculateRisk fd)) = eorFeasibility (indicators (calculateRisk fd'))"
  by (simp add: indicators_calculateRisk riskIndicators_def)

section \<open>Answers without a table entry\<close>

lemma rawScore_NaN:
  assumes "get_prop firmSizeRisk (firmSize fd) = None
    \<or> get_prop bilingualRisk (bilingualExposure fd) = None
    \<or> get_prop regionalPressure (region fd) = None
    \<or> get_prop hiringPressureRisk (hiringPressure fd) = None"
  shows "rawScore fd = NaN"
proof -
  have l: "fmul NaN y = NaN" for y by simp
  have r: "fmul x NaN = NaN" for x by (cases x) simp_all
  from assms show ?thesis
    by (auto simp: rawScore_def to_number_def l r)
qed

text \<open>
  C4, as amended: \<^verbatim>\<open>calculateRisk\<close> rejects nothing. When one of the four answers is
  unset or has no entry in its table, it still returns a result: the score is \<open>NaN\<close>,
  every comparison of the ladder is false, so the tier is the last one
  (\<^verbatim>\<open>Structural Risk\<close>), the three indicators computed from the score are \<open>NaN\<close>, and
  eorFeasibility is one of its four usual values.
\<close>

theorem unresolved_answer_gives_NaN:
  assumes "get_prop firmSizeRisk (firmSize fd) = None
    \<or> get_prop bilingualRisk (bilingualExposure fd) = None
    \<or> get_prop regionalPressure (region fd) = None
    \<or> get_prop hiringPressureRisk (hiringPressure fd) = None"
  shows "riskScore (calculateRisk fd) = NaN
    \<and> riskLevel (calculateRisk fd) = ''Structural Risk''
    \<and> riskClass (calculateRisk fd) = ''structural''
    \<and> riskDescription (calculateRisk fd) = tier_description Structural
    \<and> bilingualPressure (indicators (calculateRisk fd)) = NaN
    \<and> scarcityExposure (indicators (calculateRisk fd)) = NaN
    \<and> aiLeverage (indicators (calculateRisk fd)) = NaN
    \<and> eorFeasibility (indicators (calculateRisk fd)) \<in> {Fin 60, Fin 75, Fin 85, Fin 100}"
proof -
  have n: "normalizedScore fd = NaN"
    by (simp add: normalizedScore_def rawScore_NaN [OF assms] lit_integers)
  have e: "eorFeasibility (riskIndicators fd NaN) \<in> {Fin 60, Fin 75, Fin 85, Fin 100}"
    by (simp add: riskIndicators_def lit_integers round_double_integers)
  show ?thesis
    using e by (simp add: calculateRisk_parts riskResult_def n riskTier_def riskIndicators_def
        lit_integers lit_coefficients fsub_def)
qed

text \<open>The theorem at work: small, low, liege, stable with the firm size replaced by an unknown key.\<close>

theorem unresolved_answer_witness:
  "get_prop firmSizeRisk (firmSize (answers SmallFirm LowShare Liege StablePressure\<lparr>firmSize := Some ''huge''\<rparr>)) = None
   \<and> riskScore (calculateRisk (answers SmallFirm LowShare Liege StablePressure\<lparr>firmSize := Some ''huge''\<rparr>)) = NaN
   \<and> riskLevel (calculateRisk (answers SmallFirm LowShare Liege StablePressure\<lparr>firmSize := Some ''huge''\<rparr>)) = ''Structural Risk''"
proof -
  have "get_prop firmSizeRisk (firmSize (answers SmallFirm LowShare Liege StablePressure\<lparr>firmSize := Some ''huge''\<rparr>)) = None"
    by (simp add: get_prop_def js_string_def firmSizeRisk_def)
  then show ?thesis
    using unresolved_answer_gives_NaN
      [of "answers SmallFirm LowShare Liege StablePressure\<lparr>firmSize := Some ''huge''\<rparr>"]
    by simp
qed

text \<open>
  C4 as stated fails: with all four answers unset the function returns this result.
\<close>

theorem unset_answers_counterexample:
  "calculateRisk \<lparr>firmSize = None, bilingualExposure = None, region = None, hiringPressure = None\<rparr>
   = \<lparr>riskScore = NaN,
      riskLevel = ''Structural Risk'',
      riskClass = ''structural'',
      riskDescription =
        ''Critical exposure to bilingual talent scarcity. Reconfiguration of your talent access model required.'',
      indicators =
        \<lparr>bilingualPressure = NaN, scarcityExposure = NaN, aiLeverage = NaN,
         eorFeasibility = Fin 60\<rparr>\<rparr>"
  by (simp add: calculateRisk_parts riskResult_def normalizedScore_def rawScore_def get_prop_def
      js_string_def to_number_def firmSizeRisk_def riskTier_def riskIndicators_def fsub_def
      lit_integers lit_coefficients round_double_integers)

section \<open>Navigation\<close>

lemma round_double_nat_exact:
  assumes "n < 2 ^ 53"
  shows "round_double (of_nat n) = Fin (of_nat n)"
proof (cases "n = 0")
  case True
  then show ?thesis by (simp add: round_double_def)
next
  case False
  have "in_range (of_int (int n)) (of_int (int n)) (round_double (of_int (int n)))"
    using assms False by (intro round_double_in_range) simp_all
  then show ?thesis by (cases "round_double (of_nat n)") simp_all
qed

lemma step_up:
  assumes "k < 5"
  shows "fadd (Fin (of_nat k)) (lit 1) = Fin (of_nat (Suc k))"
proof -
  have "round_double (of_nat (Suc k)) = Fin (of_nat (Suc k))"
    using assms by (intro round_double_nat_exact) simp
  then show ?thesis by (simp add: lit_integers add.commute)
qed

lemma step_down:
  assumes "1 \<le> k" "k \<le> 5"
  shows "fsub (Fin (of_nat k)) (lit 1) = Fin (of_nat (k - 1))"
proof -
  have "round_double (of_nat (k - 1)) = Fin (of_nat (k - 1))"
    using assms by (intro round_double_nat_exact) simp
  then show ?thesis using assms by (simp add: fsub_def lit_integers of_nat_diff)
qed

lemma nextStep_step:
  assumes "totalSteps w = Fin 5" "currentStep w = Fin (of_nat k)"
  shows "nextStep w =
    (if k < 5 then updateProgress (w\<lparr>currentStep := Fin (of_nat (Suc k))\<rparr>) else w)"
  using assms step_up [of k] by (simp add: nextStep_def)

lemma prevStep_step:
  assumes "currentStep w = Fin (of_nat k)" "1 \<le> k" "k \<le> 5"
  shows "prevStep w =
    (if 1 < k then updateProgress (w\<lparr>currentStep := Fin (of_nat (k - 1))\<rparr>) else w)"
  using assms step_down [of k] by (simp add: prevStep_def lit_integers)

text \<open>
  The two functions by themselves, with five steps and the current step \<open>k\<close> from 1 to 5:
  \<^verbatim>\<open>nextStep\<close> changes nothing when \<open>k\<close> is 5 and otherwise moves to step \<open>k + 1\<close>;
  \<^verbatim>\<open>prevStep\<close> changes nothing when \<open>k\<close> is 1 and otherwise moves to step \<open>k - 1\<close>. Neither
  reads or changes an answer: whether the user may advance is decided by the Next button.
\<close>

lemma nextStep_prevStep_steps:
  assumes "totalSteps w = Fin 5" "currentStep w = Fin (of_nat k)" "1 \<le> k" "k \<le> 5"
  shows "currentStep (nextStep w) = Fin (of_nat (if k = 5 then 5 else k + 1))
    \<and> formData (nextStep w) = formData w
    \<and> (k = 5 \<longrightarrow> nextStep w = w)
    \<and> currentStep (prevStep w) = Fin (of_nat (if k = 1 then 1 else k - 1))
    \<and> formData (prevStep w) = formData w
    \<and> (k = 1 \<longrightarrow> prevStep w = w)"
proof -
  have n: "nextStep w =
    (if k < 5 then updateProgress (w\<lparr>currentStep := Fin (of_nat (Suc k))\<rparr>) else w)"
    using assms(1,2) by (rule nextStep_step)
  have p: "prevStep w =
    (if 1 < k then updateProgress (w\<lparr>currentStep := Fin (of_nat (k - 1))\<rparr>) else w)"
    using assms(2,3,4) by (rule prevStep_step)
  show ?thesis using assms by (auto simp: n p updateProgress_def)
qed

text \<open>
  The gate of the Next buttons. The script only ever enables a Next button, when the
  radio group of its step changes; so when the page starts with the four buttons
  disabled, the button of a step is disabled exactly while the answer of the step is
  unset, in every state the handlers can reach.
\<close>

lemma button_gate_init:
  assumes "disabled0 1" "disabled0 2" "disabled0 3" "disabled0 4"
  shows "button_gate (init width0 disabled0)"
  using assms by (simp add: button_gate_def init_def initial_state_def updateProgress_def)

lemma formData_nextStep [simp]: "formData (nextStep w) = formData w"
  by (simp add: nextStep_def updateProgress_def)

lemma formData_prevStep [simp]: "formData (prevStep w) = formData w"
  by (simp add: prevStep_def updateProgress_def)

lemma nextBtnDisabled_nextStep [simp]: "nextBtnDisabled (nextStep w) = nextBtnDisabled w"
  by (simp add: nextStep_def updateProgress_def)

lemma nextBtnDisabled_prevStep [simp]: "nextBtnDisabled (prevStep w) = nextBtnDisabled w"
  by (simp add: prevStep_def updateProgress_def)

lemma button_gate_handle: "button_gate w \<Longrightarrow> button_gate (handle e w)"
  by (cases e) (auto simp: button_gate_def calculateAndShowResults_def)

lemma run_Cons: "run (e # es) w = run es (handle e w)"
  by (simp add: run_def)

lemma button_gate_run: "button_gate w \<Longrightarrow> button_gate (run es w)"
proof (induction es arbitrary: w)
  case Nil
  then show ?case by (simp add: run_def)
next
  case (Cons e es)
  then show ?case by (simp add: run_Cons button_gate_handle)
qed

lemma button_of_step:
  assumes "button_gate w" "1 \<le> k" "k < 5"
  shows "nextBtnDisabled w k = (step_answer k (formData w) = None)"
proof -
  from assms(2,3) have "k = 1 \<or> k = 2 \<or> k = 3 \<or> k = 4" by arith
  with assms(1) show ?thesis by (auto simp: button_gate_def step_answer_def)
qed

lemma progress_values:
  "fmul (fdiv (Fin 1) (Fin 5)) (lit 100) = Fin 20"
  "fmul (fdiv (Fin 2) (Fin 5)) (lit 100) = Fin 40"
  "fmul (fdiv (Fin 3) (Fin 5)) (lit 100) = Fin 60"
  "fmul (fdiv (Fin 4) (Fin 5)) (lit 100) = Fin 80"
  "fmul (fdiv (Fin 5) (Fin 5)) (lit 100) = Fin 100"
  by (simp_all add: rd_eval)

lemma progress_inv_init: "progress_inv (init width0 disabled0)"
  by (simp add: progress_inv_def init_def initial_state_def updateProgress_def lit_integers)

lemma step_cases:
  assumes "currentStep w \<in> {Fin 1, Fin 2, Fin 3, Fin 4, Fin 5}"
  obtains k where "currentStep w = Fin (of_nat k)" "1 \<le> k" "k \<le> 5"
proof -
  from assms consider "currentStep w = Fin (of_nat 1)" | "currentStep w = Fin (of_nat 2)"
    | "currentStep w = Fin (of_nat 3)" | "currentStep w = Fin (of_nat 4)"
    | "currentStep w = Fin (of_nat 5)"
    by auto
  then show ?thesis by cases (auto intro: that)
qed

lemma step_in_bounds:
  assumes "1 \<le> k" "k \<le> 5"
  shows "Fin (of_nat k) \<in> {Fin 1, Fin 2, Fin 3, Fin 4, Fin 5}"
proof -
  from assms have "k = 1 \<or> k = 2 \<or> k = 3 \<or> k = 4 \<or> k = 5" by arith
  then show ?thesis by auto
qed

lemma progress_inv_nextStep:
  assumes "progress_inv w"
  shows "progress_inv (nextStep w)"
proof -
  from assms have t: "totalSteps w = Fin 5"
    and c: "currentStep w \<in> {Fin 1, Fin 2, Fin 3, Fin 4, Fin 5}"
    by (simp_all add: progress_inv_def)
  from c obtain k where k: "currentStep w = Fin (of_nat k)" "1 \<le> k" "k \<le> 5"
    by (rule step_cases)
  show ?thesis
  proof (cases "k < 5")
    case True
    then have "Fin (of_nat (Suc k)) \<in> {Fin 1, Fin 2, Fin 3, Fin 4, Fin 5}"
      by (intro step_in_bounds) simp_all
    then show ?thesis
      using True t by (simp add: nextStep_step [OF t k(1)] progress_inv_def updateProgress_def)
  next
    case False
    then show ?thesis using assms by (simp add: nextStep_step [OF t k(1)])
  qed
qed

lemma progress_inv_prevStep:
  assumes "progress_inv w"
  shows "progress_inv (prevStep w)"
proof -
  from assms have t: "totalSteps w = Fin 5"
    and c: "currentStep w \<in> {Fin 1, Fin 2, Fin 3, Fin 4, Fin 5}"
    by (simp_all add: progress_inv_def)
  from c obtain k where k: "currentStep w = Fin (of_nat k)" "1 \<le> k" "k \<le> 5"
    by (rule step_cases)
  show ?thesis
  proof (cases "1 < k")
    case True
    then have "Fin (of_nat (k - 1)) \<in> {Fin 1, Fin 2, Fin 3, Fin 4, Fin 5}"
      using k by (intro step_in_bounds) simp_all
    then show ?thesis
      using True t by (simp add: prevStep_step [OF k] progress_inv_def updateProgress_def)
  next
    case False
    then show ?thesis using assms by (simp add: prevStep_step [OF k])
  qed
qed

lemma progress_inv_results: "progress_inv w \<Longrightarrow> progress_inv (calculateAndShowResults w)"
  by (simp add: progress_inv_def calculateAndShowResults_def)

lemma progress_inv_handle: "progress_inv w \<Longrightarrow> progress_inv (handle e w)"
proof (cases e)
  case (ClickNext k)
  assume "progress_inv w"
  then show ?thesis
    by (simp add: ClickNext progress_inv_nextStep progress_inv_results)
next
  case (ClickPrev k)
  assume "progress_inv w"
  then show ?thesis by (simp add: ClickPrev progress_inv_prevStep)
qed (simp_all add: progress_inv_def)

lemma progress_inv_run: "progress_inv w \<Longrightarrow> progress_inv (run es w)"
proof (induction es arbitrary: w)
  case Nil
  then show ?case by (simp add: run_def)
next
  case (Cons e es)
  then show ?case by (simp add: run_Cons progress_inv_handle)
qed

lemma progress_value_cases:
  assumes "c \<in> {Fin 1, Fin 2, Fin 3, Fin 4, Fin 5}"
  shows "fmul (fdiv c (Fin 5)) (lit 100) \<in> {Fin 20, Fin 40, Fin 60, Fin 80, Fin 100}"
proof -
  from assms consider "c = Fin 1" | "c = Fin 2" | "c = Fin 3" | "c = Fin 4" | "c = Fin 5"
    by auto
  then show ?thesis
    by cases (simp_all only: progress_values, simp_all)
qed

text \<open>
  C8: in every state reached from \<^verbatim>\<open>init\<close> by the handlers of the page, whatever the page
  showed before, the width of the progress bar is \<open>currentStep / totalSteps * 100\<close> with
  five steps and the current step one of 1 to 5; in doubles this is exactly 20, 40, 60,
  80 or 100.
\<close>

theorem progress_indicator:
  "progressWidth (run es (init width0 disabled0))
     = fmul (fdiv (currentStep (run es (init width0 disabled0)))
          (totalSteps (run es (init width0 disabled0)))) (lit 100)
   \<and> totalSteps (run es (init width0 disabled0)) = lit 5
   \<and> currentStep (run es (init width0 disabled0)) \<in> {lit 1, lit 2, lit 3, lit 4, lit 5}
   \<and> progressWidth (run es (init width0 disabled0)) \<in> {lit 20, lit 40, lit 60, lit 80, lit 100}"
proof -
  let ?w = "run es (init width0 disabled0)"
  have inv: "progress_inv ?w" using progress_inv_init by (rule progress_inv_run)
  then have t: "totalSteps ?w = Fin 5"
    and c: "currentStep ?w \<in> {Fin 1, Fin 2, Fin 3, Fin 4, Fin 5}"
    and p: "progressWidth ?w = fmul (fdiv (currentStep ?w) (totalSteps ?w)) (lit 100)"
    by (simp_all add: progress_inv_def)
  have "progressWidth ?w \<in> {Fin 20, Fin 40, Fin 60, Fin 80, Fin 100}"
    unfolding p t using c by (rule progress_value_cases)
  with t c p show ?thesis by (simp only: lit_integers simp_thms)
qed

lemma step_number:
  assumes "Fin (of_nat k) \<in> {Fin 1, Fin 2, Fin 3, Fin 4, Fin 5}"
  shows "1 \<le> k \<and> k \<le> 5"
proof -
  from assms have "(of_nat k :: rat) = of_nat 1 \<or> (of_nat k :: rat) = of_nat 2
    \<or> (of_nat k :: rat) = of_nat 3 \<or> (of_nat k :: rat) = of_nat 4
    \<or> (of_nat k :: rat) = of_nat 5"
    by simp
  then have "k = 1 \<or> k = 2 \<or> k = 3 \<or> k = 4 \<or> k = 5"
    unfolding of_nat_eq_iff .
  then show ?thesis by arith
qed

lemma click_next_enabled:
  assumes "totalSteps w = Fin 5" "currentStep w = Fin (of_nat k)" "1 \<le> k" "k < 5"
    "\<not> nextBtnDisabled w k"
  shows "currentStep (handle (ClickNext k) w) = Fin (of_nat (k + 1))
    \<and> formData (handle (ClickNext k) w) = formData w"
proof -
  have n: "currentStep (nextStep v) = Fin (of_nat (k + 1))"
    if "totalSteps v = Fin 5" "currentStep v = Fin (of_nat k)" for v
    using that assms(4) by (simp add: nextStep_step [OF that] updateProgress_def)
  have r: "totalSteps (calculateAndShowResults w) = Fin 5"
    "currentStep (calculateAndShowResults w) = Fin (of_nat k)"
    "formData (calculateAndShowResults w) = formData w"
    using assms(1,2) by (simp_all add: calculateAndShowResults_def)
  from assms(3,4) have "k = 1 \<or> k = 2 \<or> k = 3 \<or> k = 4" by arith
  then show ?thesis
    using assms(5) n [OF assms(1,2)] n [OF r(1,2)] r(3) by auto
qed

lemma click_next_last_step:
  assumes "totalSteps w = Fin 5" "currentStep w = Fin 5"
  shows "currentStep (handle (ClickNext j) w) = Fin 5
    \<and> formData (handle (ClickNext j) w) = formData w"
proof -
  have n: "nextStep v = v" if "totalSteps v = Fin 5" "currentStep v = Fin 5" for v
    using that by (simp add: nextStep_def)
  have r: "totalSteps (calculateAndShowResults w) = Fin 5"
    "currentStep (calculateAndShowResults w) = Fin 5"
    "formData (calculateAndShowResults w) = formData w"
    using assms by (simp_all add: calculateAndShowResults_def)
  show ?thesis using assms n [OF assms] n [OF r(1,2)] r by simp
qed

text \<open>
  C5: \<^verbatim>\<open>advance()\<close> is the click on the Next button of the current step, whose handler
  calls \<^verbatim>\<open>nextStep\<close> (at step 4 after \<^verbatim>\<open>calculateAndShowResults\<close>); \<^verbatim>\<open>retreat()\<close> is
  \<^verbatim>\<open>prevStep\<close>, which the Previous buttons of steps 2 to 4 call. The markup of the page is
  not part of the script, so whether a Next button starts disabled is a parameter; the
  page is taken to start with the four of them disabled. Then in every state \<open>w\<close> the
  handlers can reach, with \<open>k\<close> the current step: there are five steps and \<open>k\<close> is one of
  1 to 5; at step 5 \<^verbatim>\<open>nextStep\<close> changes nothing, and no Next button changes the step or an
  answer; below step 5 the click changes nothing while the answer of step \<open>k\<close> is unset,
  and otherwise moves to step \<open>k + 1\<close> and leaves the answers; \<^verbatim>\<open>prevStep\<close> changes nothing
  at step 1, and otherwise moves to step \<open>k - 1\<close> and leaves the answers.
\<close>

theorem step_navigation:
  assumes "disabled0 1" "disabled0 2" "disabled0 3" "disabled0 4"
    and "w = run es (init width0 disabled0)"
    and "currentStep w = Fin (of_nat k)"
  shows "1 \<le> k \<and> k \<le> 5 \<and> totalSteps w = Fin 5
    \<and> (k = 5 \<longrightarrow> nextStep w = w
          \<and> (\<forall>j. currentStep (handle (ClickNext j) w) = currentStep w
                 \<and> formData (handle (ClickNext j) w) = formData w))
    \<and> (k < 5 \<and> step_answer k (formData w) = None \<longrightarrow> handle (ClickNext k) w = w)
    \<and> (k < 5 \<and> step_answer k (formData w) \<noteq> None \<longrightarrow>
          currentStep (handle (ClickNext k) w) = Fin (of_nat (k + 1))
          \<and> formData (handle (ClickNext k) w) = formData w)
    \<and> (k = 1 \<longrightarrow> prevStep w = w)
    \<and> (1 < k \<longrightarrow> currentStep (prevStep w) = Fin (of_nat (k - 1))
          \<and> formData (prevStep w) = formData w)
    \<and> (k \<in> {2, 3, 4} \<longrightarrow> handle (ClickPrev k) w = prevStep w)"
proof -
  have g: "button_gate w"
    unfolding assms(5) using button_gate_init [OF assms(1-4)] by (rule button_gate_run)
  have "progress_inv w"
    unfolding assms(5) using progress_inv_init by (rule progress_inv_run)
  then have t: "totalSteps w = Fin 5"
    and c: "currentStep w \<in> {Fin 1, Fin 2, Fin 3, Fin 4, Fin 5}"
    by (simp_all add: progress_inv_def)
  from c have k: "1 \<le> k" "k \<le> 5" using step_number [of k] by (simp_all add: assms(6))
  have n: "nextStep w =
    (if k < 5 then updateProgress (w\<lparr>currentStep := Fin (of_nat (Suc k))\<rparr>) else w)"
    using t assms(6) by (rule nextStep_step)
  have p: "prevStep w =
    (if 1 < k then updateProgress (w\<lparr>currentStep := Fin (of_nat (k - 1))\<rparr>) else w)"
    using assms(6) k by (rule prevStep_step)
  have last: "k = 5 \<longrightarrow> nextStep w = w
      \<and> (\<forall>j. currentStep (handle (ClickNext j) w) = currentStep w
             \<and> formData (handle (ClickNext j) w) = formData w)"
  proof
    assume "k = 5"
    then have c5: "currentStep w = Fin 5" using assms(6) by simp
    show "nextStep w = w
      \<and> (\<forall>j. currentStep (handle (ClickNext j) w) = currentStep w
             \<and> formData (handle (ClickNext j) w) = formData w)"
      using \<open>k = 5\<close> click_next_last_step [OF t c5] by (simp add: n c5)
  qed
  have blocked: "k < 5 \<and> step_answer k (formData w) = None \<longrightarrow> handle (ClickNext k) w = w"
    using button_of_step [OF g k(1)] by simp
  have advance: "k < 5 \<and> step_answer k (formData w) \<noteq> None \<longrightarrow>
      currentStep (handle (ClickNext k) w) = Fin (of_nat (k + 1))
      \<and> formData (handle (ClickNext k) w) = formData w"
  proof
    assume a: "k < 5 \<and> step_answer k (formData w) \<noteq> None"
    then have "\<not> nextBtnDisabled w k" using button_of_step [OF g k(1)] by simp
    with a show "currentStep (handle (ClickNext k) w) = Fin (of_nat (k + 1))
      \<and> formData (handle (ClickNext k) w) = formData w"
      by (intro click_next_enabled [OF t assms(6) k(1)]) simp_all
  qed
  have first: "k = 1 \<longrightarrow> prevStep w = w" by (simp add: p)
  have retreat: "1 < k \<longrightarrow> currentStep (prevStep w) = Fin (of_nat (k - 1))
      \<and> formData (prevStep w) = formData w"
    by (simp add: p updateProgress_def)
  have button: "k \<in> {2, 3, 4} \<longrightarrow> handle (ClickPrev k) w = prevStep w" by auto
  from k t last blocked advance first retreat button show ?thesis by (intro conjI)
qed

text \<open>
  The theorem at work on a page that starts with every Next button disabled: at step 1
  with no answer the click and \<^verbatim>\<open>prevStep\<close> change nothing; once the firm size is chosen
  the click moves to step 2; there, with no answer yet, the click changes nothing and the
  Previous button moves back to step 1; and after the four answers and four clicks the
  wizard is at step 5, where \<^verbatim>\<open>nextStep\<close> changes nothing.
\<close>

lemmas run_eval = run_def init_def initial_state_def updateProgress_def nextStep_def
  prevStep_def calculateAndShowResults_def step_answer_def lit_integers round_double_integers
  fsub_def

theorem step_navigation_witness:
  "step_answer 1 (formData (init NaN (\<lambda>k. True))) = None
   \<and> handle (ClickNext 1) (init NaN (\<lambda>k. True)) = init NaN (\<lambda>k. True)
   \<and> prevStep (init NaN (\<lambda>k. True)) = init NaN (\<lambda>k. True)
   \<and> step_answer 1 (formData (run [ChangeFirmSize ''small''] (init NaN (\<lambda>k. True))))
       = Some ''small''
   \<and> currentStep (handle (ClickNext 1) (run [ChangeFirmSize ''small''] (init NaN (\<lambda>k. True))))
       = Fin 2
   \<and> step_answer 2
         (formData (run [ChangeFirmSize ''small'', ClickNext 1] (init NaN (\<lambda>k. True)))) = None
   \<and> handle (ClickNext 2) (run [ChangeFirmSize ''small'', ClickNext 1] (init NaN (\<lambda>k. True)))
       = run [ChangeFirmSize ''small'', ClickNext 1] (init NaN (\<lambda>k. True))
   \<and> currentStep (handle (ClickPrev 2)
         (run [ChangeFirmSize ''small'', ClickNext 1] (init NaN (\<lambda>k. True)))) = Fin 1
   \<and> currentStep (run [ChangeFirmSize ''small'', ClickNext 1, ChangeBilingualExposure ''low'',
         ClickNext 2, ChangeRegion ''liege'', ClickNext 3, ChangeHiringPressure ''stable'',
         ClickNext 4] (init NaN (\<lambda>k. True))) = Fin 5
   \<and> nextStep (run [ChangeFirmSize ''small'', ClickNext 1, ChangeBilingualExposure ''low'',
         ClickNext 2, ChangeRegion ''liege'', ClickNext 3, ChangeHiringPressure ''stable'',
         ClickNext 4] (init NaN (\<lambda>k. True)))
       = run [ChangeFirmSize ''small'', ClickNext 1, ChangeBilingualExposure ''low'',
         ClickNext 2, ChangeRegion ''liege'', ClickNext 3, ChangeHiringPressure ''stable'',
         ClickNext 4] (init NaN (\<lambda>k. True))"
proof -
  let ?p = "init NaN (\<lambda>k. True)"
  let ?e1 = "[ChangeFirmSize ''small'']"
  let ?e2 = "[ChangeFirmSize ''small'', ClickNext 1]"
  let ?e5 = "[ChangeFirmSize ''small'', ClickNext 1, ChangeBilingualExposure ''low'',
         ClickNext 2, ChangeRegion ''liege'', ClickNext 3, ChangeHiringPressure ''stable'',
         ClickNext 4]"
  have s0: "currentStep (run [] ?p) = Fin (of_nat 1)"
    "step_answer 1 (formData (run [] ?p)) = None" "run [] ?p = ?p"
    by (simp_all add: run_eval)
  have s1: "currentStep (run ?e1 ?p) = Fin (of_nat 1)"
    "step_answer 1 (formData (run ?e1 ?p)) = Some ''small''"
    by (simp_all add: run_eval)
  have s2: "currentStep (run ?e2 ?p) = Fin (of_nat 2)"
    "step_answer 2 (formData (run ?e2 ?p)) = None"
    by (simp_all add: run_eval)
  have s5: "currentStep (run ?e5 ?p) = Fin (of_nat 5)"
    by (simp add: run_eval)
  note a = step_navigation [of "\<lambda>k. True" _ "[]" NaN 1, OF TrueI TrueI TrueI TrueI refl s0(1)]
  note b = step_navigation [of "\<lambda>k. True" _ ?e1 NaN 1, OF TrueI TrueI TrueI TrueI refl s1(1)]
  note c = step_navigation [of "\<lambda>k. True" _ ?e2 NaN 2, OF TrueI TrueI TrueI TrueI refl s2(1)]
  note d = step_navigation [of "\<lambda>k. True" _ ?e5 NaN 5, OF TrueI TrueI TrueI TrueI refl s5]
  from s0(2,3) have 0: "step_answer 1 (formData ?p) = None" by simp
  from a s0(2,3) have 1: "handle (ClickNext 1) ?p = ?p" "prevStep ?p = ?p" by simp_all
  from b s1(2) have 2: "currentStep (handle (ClickNext 1) (run ?e1 ?p)) = Fin 2" by simp
  from c s2(2) have 3: "handle (ClickNext 2) (run ?e2 ?p) = run ?e2 ?p"
    "currentStep (handle (ClickPrev 2) (run ?e2 ?p)) = Fin 1" by simp_all
  from s5 have 5: "currentStep (run ?e5 ?p) = Fin 5" by simp
  from d have 4: "nextStep (run ?e5 ?p) = run ?e5 ?p" by simp
  from 0 1 s1(2) 2 s2(2) 3 5 4 show ?thesis by (intro conjI)
qed

text \<open>
  The handlers themselves do not test which step is current: the Next button of step 1,
  once enabled, would advance from step 2 as well. The theorem speaks of the button of
  the current step, the step the script has marked \<^verbatim>\<open>active\<close>.
\<close>

lemma other_step_button:
  "currentStep (run [ChangeFirmSize ''small'', ClickNext 1, ClickNext 1] (init NaN (\<lambda>k. True)))
     = Fin 3
   \<and> bilingualExposure
         (formData (run [ChangeFirmSize ''small'', ClickNext 1, ClickNext 1]
            (init NaN (\<lambda>k. True)))) = None"
  by (simp add: run_eval)

section \<open>The interpretation text\<close>

lemma firmSize_label:
  "js_string (getFirmSizeLabel (Some (firm_size_key fs))) = firmSizePhrase fs"
  by (cases fs)
    (simp_all add: getFirmSizeLabel_def label_or_key_def get_prop_def js_string_def en_dash_def)

lemma bilingual_label:
  "js_string (getBilingualLabel (Some (exposure_key bl))) = bilingualPhrase bl"
  by (cases bl)
    (simp_all add: getBilingualLabel_def label_or_key_def get_prop_def js_string_def)

lemma region_label:
  "js_string (getRegionLabel (Some (region_key rg))) = regionPhrase rg"
  by (cases rg)
    (simp_all add: getRegionLabel_def label_or_key_def get_prop_def js_string_def e_grave_def)

lemma toLowerCase_level: "toLowerCase (tier_level t) = tier_phrase t"
  by (cases t) (simp_all add: toLowerCase_def lower_char_def)

lemma tier_class_tests:
  "(tier_class t = ''low'') = (t = Low)"
  "(tier_class t = ''moderate'') = (t = Moderate)"
  "(tier_class t = ''elevated'') = (t = Elevated)"
  by (cases t; simp)+

lemma generateInterpretation_tier:
  assumes "riskLevel rd = tier_level t" "riskClass rd = tier_class t"
  shows "generateInterpretation (answers fs bl rg hp) rd = spec_interpretation fs bl rg t"
  by (cases t)
    (simp_all add: generateInterpretation_def assms answers_def firmSize_label bilingual_label
      region_label toLowerCase_def lower_char_def spec_interpretation_def opening_paragraph_def
      recommendation_list_def market_context_def html_p_def html_strong_def html_ul_def)

text \<open>
  C7: for each combination of valid answers the interpretation text is the opening
  paragraph, with the label phrases of the firm size, the bilingual exposure and the
  region in place and the tier's name and sentence, followed by the recommendation list
  of the tier of the score, followed by the fixed market paragraph. The tier is the only
  thing the text branches on (the hiring pressure enters through the score alone), and
  the four lists have three, three, four and four items.
\<close>

theorem interpretation_text:
  "(case riskScore (calculateRisk (answers fs bl rg hp)) of
      Fin s \<Rightarrow>
        generateInterpretation (answers fs bl rg hp) (calculateRisk (answers fs bl rg hp))
          = opening_paragraph fs bl rg (spec_tier s) @ recommendation_list (spec_tier s)
            @ market_context
    | _ \<Rightarrow> False)
   \<and> length (recommendations t) = (if t = Low \<or> t = Moderate then 3 else 4)"
proof -
  from score_in_range [of fs bl rg hp]
  obtain s where s: "riskScore (calculateRisk (answers fs bl rg hp)) = Fin s"
    by (rule in_range_cases)
  then have n: "normalizedScore (answers fs bl rg hp) = Fin s"
    by (simp add: calculateRisk_parts riskResult_def)
  have "riskLevel (calculateRisk (answers fs bl rg hp)) = tier_level (spec_tier s)"
    "riskClass (calculateRisk (answers fs bl rg hp)) = tier_class (spec_tier s)"
    by (simp_all add: calculateRisk_parts riskResult_def n riskTier_Fin)
  then have "generateInterpretation (answers fs bl rg hp) (calculateRisk (answers fs bl rg hp))
      = spec_interpretation fs bl rg (spec_tier s)"
    by (rule generateInterpretation_tier)
  then have 1: "case riskScore (calculateRisk (answers fs bl rg hp)) of
      Fin s \<Rightarrow>
        generateInterpretation (answers fs bl rg hp) (calculateRisk (answers fs bl rg hp))
          = opening_paragraph fs bl rg (spec_tier s) @ recommendation_list (spec_tier s)
            @ market_context
    | _ \<Rightarrow> False"
    by (simp add: s spec_interpretation_def)
  have 2: "length (recommendations t) = (if t = Low \<or> t = Moderate then 3 else 4)"
    by (cases t) simp_all
  from 1 2 show ?thesis ..
qed

end
